theory Spec2Isabelle
  imports Complex_Main "HOL-Library.AList" "HOL-Library.Sublist" "HOL-Library.Multiset"
begin

section \<open>Effect size interpretation\<close>

text \<open>
  The value of a Python float is a real number, with two additions where the program meets
  a non-real float: \<open>None\<close> of \<open>pyfloat\<close> is NaN (the sample variance of a single
  observation, a p-value computed from it), and the last bound of every band table,
  \<^verbatim>\<open>float('inf')\<close>, is a constructor of its own. Comparisons of floats are exact; the
  arithmetic that rounds (sums, differences, products, quotients, square roots) is a
  parameter of the analyzers, given below as exact arithmetic and as the arithmetic of
  doubles. Overflow is not modelled. Strings are byte lists (UTF-8), which is how the one
  non-ASCII key of the table is written down below.
\<close>

type_synonym pyfloat = "real option"

datatype error =
    KeyError
  | ValueError string

datatype bound = Fin real | Inf

text \<open>
  \<^verbatim>\<open>abs(value) < threshold\<close>, the threshold being a float that may be infinite. Every
  comparison with NaN is false.
\<close>

fun below :: "pyfloat \<Rightarrow> bound \<Rightarrow> bool" where
  "below None t = False"
| "below (Some x) (Fin t) = (x < t)"
| "below (Some x) Inf = True"

definition abs_float :: "pyfloat \<Rightarrow> pyfloat" where
  "abs_float x = map_option abs x"

text \<open>
  \<^verbatim>\<open>str.lower()\<close> on the ASCII letters: a byte in \<open>A..Z\<close> gets bit 5 set, every other byte
  is kept (the bytes of a multi-byte UTF-8 character among them).
\<close>

definition lower_char :: "char \<Rightarrow> char" where
  "lower_char c =
     (if 65 \<le> (of_char c :: nat) \<and> (of_char c :: nat) \<le> 90
      then (case c of Char b0 b1 b2 b3 b4 b5 b6 b7 \<Rightarrow> Char b0 b1 b2 b3 b4 True b6 b7)
      else c)"

definition lower :: "string \<Rightarrow> string" where
  "lower s = map lower_char s"

text \<open>The four keys of the dictionary \<^verbatim>\<open>interpretations\<close>, as the source file spells them.\<close>

definition key_cohen :: string where
  "key_cohen = ''cohen's d''"

definition key_eta :: string where
  "key_eta = ''eta squared''"

definition key_pearson :: string where
  "key_pearson = ''pearson's r''"

definition key_cramer :: string where
  "key_cramer = ''cram'' @ [CHR 0xE2, CHR 0x88, CHR 0x9A, CHR 0xC2, CHR 0xA9] @ ''r's v''"

definition bands_cohen :: "(bound \<times> string) list" where
  "bands_cohen =
     [(Fin 0.2, ''small effect size''),
      (Fin 0.5, ''medium effect size''),
      (Fin 0.8, ''large effect size''),
      (Inf, ''very large effect size'')]"

definition bands_eta :: "(bound \<times> string) list" where
  "bands_eta =
     [(Fin 0.01, ''small effect size''),
      (Fin 0.06, ''medium effect size''),
      (Fin 0.14, ''large effect size''),
      (Inf, ''very large effect size'')]"

definition bands_pearson :: "(bound \<times> string) list" where
  "bands_pearson =
     [(Fin 0.1, ''negligible correlation''),
      (Fin 0.3, ''small correlation''),
      (Fin 0.5, ''medium correlation''),
      (Fin 0.7, ''large correlation''),
      (Fin 0.9, ''very large correlation''),
      (Inf, ''perfect correlation'')]"

definition bands_cramer :: "(bound \<times> string) list" where
  "bands_cramer =
     [(Fin 0.1, ''small effect size''),
      (Fin 0.3, ''medium effect size''),
      (Fin 0.5, ''large effect size''),
      (Inf, ''very large effect size'')]"

text \<open>The dictionary \<^verbatim>\<open>interpretations\<close>; \<open>None\<close> is a missing key.\<close>

definition interpretations :: "string \<Rightarrow> (bound \<times> string) list option" where
  "interpretations k =
     (if k = key_cohen then Some bands_cohen
      else if k = key_eta then Some bands_eta
      else if k = key_pearson then Some bands_pearson
      else if k = key_cramer then Some bands_cramer
      else None)"

text \<open>
  The \<^verbatim>\<open>for\<close> loop over the band list: the first band whose threshold exceeds
  \<^verbatim>\<open>abs(value)\<close> returns its label; a loop that runs off the end makes the Python function
  return \<^verbatim>\<open>None\<close>.
\<close>

fun scan_bands :: "pyfloat \<Rightarrow> (bound \<times> string) list \<Rightarrow> string option" where
  "scan_bands value [] = None"
| "scan_bands value ((threshold, interpretation) # rest) =
     (if below (abs_float value) threshold then Some interpretation
      else scan_bands value rest)"

definition interpret_effect_size :: "pyfloat \<Rightarrow> string \<Rightarrow> error + string option" where
  "interpret_effect_size value effect_type =
     (case interpretations (lower effect_type) of
        None \<Rightarrow> Inl KeyError
      | Some bands \<Rightarrow> Inr (scan_bands value bands))"

text \<open>The position of a label in a band list (the length of the list when it is absent).\<close>

fun label_rank :: "(bound \<times> string) list \<Rightarrow> string \<Rightarrow> nat" where
  "label_rank [] l = 0"
| "label_rank ((threshold, interpretation) # rest) l =
     (if interpretation = l then 0 else Suc (label_rank rest l))"


section \<open>Tables\<close>

text \<open>
  A cell of a data frame is missing, a number or a text. A data frame is the list of its
  named columns, all of one length; \<^verbatim>\<open>df[c]\<close> raises \<^verbatim>\<open>KeyError\<close> for a name that is not
  a column.
\<close>

datatype cell = NA | Num real | Str string

type_synonym column = "cell list"

type_synonym table = "(string \<times> column) list"

definition getitem :: "table \<Rightarrow> string \<Rightarrow> error + column" where
  "getitem df c = (case map_of df c of None \<Rightarrow> Inl KeyError | Some col \<Rightarrow> Inr col)"

text \<open>\<^verbatim>\<open>df[c] = col\<close>: an existing column is replaced where it stands, a new one is appended.\<close>

definition setitem :: "table \<Rightarrow> string \<Rightarrow> column \<Rightarrow> table" where
  "setitem df c col = AList.update c col df"

definition nrows :: "table \<Rightarrow> nat" where
  "nrows df = (case df of [] \<Rightarrow> 0 | (c, col) # rest \<Rightarrow> length col)"

text \<open>
  \<^verbatim>\<open>df.dropna(subset=cols)\<close>: a new frame with the rows that have no missing cell in
  the named columns, in their order; \<^verbatim>\<open>KeyError\<close> when a name is not a column.
\<close>

fun getitems :: "table \<Rightarrow> string list \<Rightarrow> error + column list" where
  "getitems df [] = Inr []"
| "getitems df (c # cs) =
     (case getitem df c of
        Inl e \<Rightarrow> Inl e
      | Inr col \<Rightarrow> (case getitems df cs of Inl e \<Rightarrow> Inl e | Inr cols \<Rightarrow> Inr (col # cols)))"

definition row_complete :: "column list \<Rightarrow> nat \<Rightarrow> bool" where
  "row_complete cols i = list_all (\<lambda>col. i < length col \<and> col ! i \<noteq> NA) cols"

definition take_rows :: "nat list \<Rightarrow> column \<Rightarrow> column" where
  "take_rows keep col = map (\<lambda>i. col ! i) (filter (\<lambda>i. i < length col) keep)"

definition dropna :: "table \<Rightarrow> string list \<Rightarrow> error + table" where
  "dropna df names =
     (case getitems df names of
        Inl e \<Rightarrow> Inl e
      | Inr cols \<Rightarrow>
          (let keep = filter (row_complete cols) [0 ..< nrows df]
           in Inr (map (\<lambda>(c, col). (c, take_rows keep col)) df)))"

text \<open>
  \<^verbatim>\<open>pd.to_numeric(col, errors='coerce')\<close>: numbers stay, a text that reads as a number
  becomes that number, every other cell becomes missing. How a text reads as a number is
  the library's business: \<open>parse\<close> is a parameter.
\<close>

fun coerce :: "(string \<Rightarrow> real option) \<Rightarrow> cell \<Rightarrow> cell" where
  "coerce parse NA = NA"
| "coerce parse (Num x) = Num x"
| "coerce parse (Str s) = (case parse s of None \<Rightarrow> NA | Some x \<Rightarrow> Num x)"

definition to_numeric :: "(string \<Rightarrow> real option) \<Rightarrow> column \<Rightarrow> column" where
  "to_numeric parse col = map (coerce parse) col"

text \<open>The numbers of a column, as a list of floats (cells that are not numbers are skipped).\<close>

fun numbers :: "column \<Rightarrow> real list" where
  "numbers [] = []"
| "numbers (Num x # rest) = x # numbers rest"
| "numbers (c # rest) = numbers rest"

text \<open>\<^verbatim>\<open>Series.unique()\<close>: the distinct values in order of first appearance.\<close>

fun unique :: "'a list \<Rightarrow> 'a list" where
  "unique [] = []"
| "unique (x # xs) = x # filter (\<lambda>y. y \<noteq> x) (unique xs)"

text \<open>\<^verbatim>\<open>Series.nunique()\<close>: the number of distinct values, the missing ones not counted.\<close>

definition nunique :: "column \<Rightarrow> nat" where
  "nunique col = length (unique (filter (\<lambda>c. c \<noteq> NA) col))"

section \<open>The store\<close>

text \<open>
  Data frames are objects: the caller and the analyzer hold references to them. The store
  is the list of all frames allocated so far, a reference is an index into it.
  \<^verbatim>\<open>df.copy()\<close> and \<^verbatim>\<open>df.dropna(...)\<close> allocate a new frame, \<^verbatim>\<open>df[c] = col\<close>
  changes the frame the reference points to.
\<close>

type_synonym ref = nat

type_synonym store = "table list"

definition deref :: "store \<Rightarrow> ref \<Rightarrow> table" where
  "deref st r = (if r < length st then st ! r else [])"

definition alloc :: "store \<Rightarrow> table \<Rightarrow> ref \<times> store" where
  "alloc st df = (length st, st @ [df])"

definition copy :: "store \<Rightarrow> ref \<Rightarrow> ref \<times> store" where
  "copy st r = alloc st (deref st r)"

definition assign_column :: "store \<Rightarrow> ref \<Rightarrow> string \<Rightarrow> column \<Rightarrow> store" where
  "assign_column st r c col = st[r := setitem (deref st r) c col]"

section \<open>The library's statistics\<close>

text \<open>
  The distribution functions behind the p-values, the analysis of variance and the
  correlation coefficient are the libraries' (SciPy, Pingouin); the analyzers are
  modelled for any such functions. So is the arithmetic of floats: \<open>fl_add\<close>, \<open>fl_sub\<close>,
  \<open>fl_mul\<close>, \<open>fl_div\<close> and \<open>fl_sqrt\<close> are the machine's \<^verbatim>\<open>+\<close>, \<^verbatim>\<open>-\<close>, \<^verbatim>\<open>*\<close>, \<^verbatim>\<open>/\<close> and
  \<^verbatim>\<open>sqrt\<close> on floats, \<open>fl_sum\<close> is NumPy's sum of an array of floats.
\<close>

record lib =
  parse_number :: "string \<Rightarrow> real option"
  chi2_sf :: "real \<Rightarrow> nat \<Rightarrow> real"
  ttest_ind :: "real list \<Rightarrow> real list \<Rightarrow> pyfloat \<times> pyfloat"
  anova :: "(cell \<times> real) list \<Rightarrow> pyfloat \<times> pyfloat"
  pearsonr :: "real list \<Rightarrow> real list \<Rightarrow> pyfloat \<times> pyfloat"
  float_of_text :: "string \<Rightarrow> real option"
  fl_add :: "real \<Rightarrow> real \<Rightarrow> real"
  fl_sub :: "real \<Rightarrow> real \<Rightarrow> real"
  fl_mul :: "real \<Rightarrow> real \<Rightarrow> real"
  fl_div :: "real \<Rightarrow> real \<Rightarrow> real"
  fl_sqrt :: "real \<Rightarrow> real"
  fl_sum :: "real list \<Rightarrow> real"

text \<open>\<^verbatim>\<open>p_value <= alpha\<close> on floats: false when the p-value is NaN.\<close>

fun le_float :: "pyfloat \<Rightarrow> real \<Rightarrow> bool" where
  "le_float None a = False"
| "le_float (Some p) a = (p \<le> a)"

section \<open>Categorical on categorical\<close>

text \<open>
  \<^verbatim>\<open>pd.crosstab(a, b)\<close>: the rows with a missing cell in either column are left out; the
  table has one row per distinct value of \<open>a\<close>, one column per distinct value of \<open>b\<close> and
  the number of rows with that pair in each cell. Pandas sorts the row and column labels;
  here they stand in order of first appearance, which changes neither a count nor the
  shape nor any statistic below.
\<close>

record crosstable =
  index :: "cell list"
  columns :: "cell list"
  counts :: "nat list list"

definition observed_pairs :: "column \<Rightarrow> column \<Rightarrow> (cell \<times> cell) list" where
  "observed_pairs a b = filter (\<lambda>(x, y). x \<noteq> NA \<and> y \<noteq> NA) (zip a b)"

definition crosstab :: "column \<Rightarrow> column \<Rightarrow> crosstable" where
  "crosstab a b =
     (let pairs = observed_pairs a b;
          rows = unique (map fst pairs);
          cols = unique (map snd pairs)
      in \<lparr> index = rows, columns = cols,
           counts = map (\<lambda>x. map (\<lambda>y. count_list pairs (x, y)) cols) rows \<rparr>)"

text \<open>\<^verbatim>\<open>contingency_table.shape\<close> and \<^verbatim>\<open>contingency_table.values.sum()\<close>.\<close>

definition shape :: "nat list list \<Rightarrow> int \<times> int" where
  "shape obs = (int (length obs), (case obs of [] \<Rightarrow> 0 | row # rest \<Rightarrow> int (length row)))"

definition total :: "nat list list \<Rightarrow> nat" where
  "total obs = sum_list (map sum_list obs)"

text \<open>
  \<^verbatim>\<open>scipy.stats.chi2_contingency(observed)\<close> with its defaults, on a two-dimensional
  table of counts: the expected frequencies are the products of the marginal sums over
  the total; a table without cells or with an expected frequency of zero is refused;
  with no degree of freedom the statistic is 0 and the p-value 1; with one degree of
  freedom every observed count is first moved towards its expected frequency by at most
  one half (Yates); the statistic is Pearson's sum, over all cells in row-major order, of
  the squared differences over the expected frequencies. The counts and their marginal
  sums are whole numbers and exact; every other operation is one of the floats.
\<close>

definition col_sums :: "nat list list \<Rightarrow> nat list" where
  "col_sums obs =
     (case obs of
        [] \<Rightarrow> []
      | row # rest \<Rightarrow> map (\<lambda>j. sum_list (map (\<lambda>r. r ! j) obs)) [0 ..< length row])"

definition expected_freq :: "lib \<Rightarrow> nat list list \<Rightarrow> real list list" where
  "expected_freq l obs =
     map (\<lambda>r. map (\<lambda>c. fl_div l (fl_mul l (real r) (real c)) (real (total obs)))
                  (col_sums obs))
       (map sum_list obs)"

definition yates :: "lib \<Rightarrow> real \<Rightarrow> real \<Rightarrow> real" where
  "yates l obs ex =
     (let diff = fl_sub l ex obs
      in fl_add l obs (fl_mul l (min (1 / 2) \<bar>diff\<bar>) (sgn diff)))"

definition pearson_term :: "lib \<Rightarrow> real \<Rightarrow> real \<Rightarrow> real" where
  "pearson_term l ob e = (let d = fl_sub l ob e in fl_div l (fl_mul l d d) e)"

definition pearson_terms :: "lib \<Rightarrow> real list list \<Rightarrow> real list list \<Rightarrow> real list list" where
  "pearson_terms l obs ex = map2 (\<lambda>orow erow. map2 (pearson_term l) orow erow) obs ex"

definition chi2_contingency :: "lib \<Rightarrow> nat list list \<Rightarrow> error + (real \<times> real \<times> nat)" where
  "chi2_contingency l obs =
     (let (r, k) = shape obs in
      if r * k = 0 then Inl (ValueError ''No data; `observed` has size 0.'')
      else
        let ex = expected_freq l obs in
        if list_ex (list_ex (\<lambda>e. e = 0)) ex
        then Inl (ValueError ''The internally computed table of expected frequencies has a zero element.'')
        else
          let dof = nat (r * k - (r + k) + 2 - 1) in
          if dof = 0 then Inr (0, 1, dof)
          else
            let robs = map (map real) obs;
                adj = (if dof = 1 then map2 (map2 (yates l)) robs ex else robs);
                chi2 = fl_sum l (concat (pearson_terms l adj ex))
            in Inr (chi2, chi2_sf l chi2 dof, dof))"

text \<open>The text of a result, before the numbers are rounded to three decimals.\<close>

datatype metric = Cramers_V | Cohens_d | Eta_Squared | Pearsons_r

datatype result_text =
    Effect metric pyfloat "string option" pyfloat
  | Not_significant pyfloat real

definition name_cramer :: string where
  "name_cramer = ''Cram'' @ [CHR 0xE2, CHR 0x88, CHR 0x9A, CHR 0xC2, CHR 0xA9] @ ''r's V''"

text \<open>
  \<^verbatim>\<open>denom = min((k - 1), (r - 1)) if min((k - 1), (r - 1)) > 0 else 1\<close>, on Python's
  integers.
\<close>

definition denom :: "int \<Rightarrow> int \<Rightarrow> int" where
  "denom r k = (if min (k - 1) (r - 1) > 0 then min (k - 1) (r - 1) else 1)"

text \<open>
  The statistics of \<^verbatim>\<open>cat_on_cat_effect_size\<close>, up to the branch on the p-value: the
  contingency table, Cramer's V and the p-value.
\<close>

definition cat_on_cat_stats ::
  "lib \<Rightarrow> table \<Rightarrow> string \<Rightarrow> string \<Rightarrow> error + (crosstable \<times> real \<times> real)" where
  "cat_on_cat_stats l df cat_col1 cat_col2 =
     (case getitem df cat_col1 of
        Inl e \<Rightarrow> Inl e
      | Inr a \<Rightarrow>
     (case getitem df cat_col2 of
        Inl e \<Rightarrow> Inl e
      | Inr b \<Rightarrow>
     (let contingency_table = crosstab a b in
      case chi2_contingency l (counts contingency_table) of
        Inl e \<Rightarrow> Inl e
      | Inr (chi2, p_value, dof) \<Rightarrow>
          (let n = total (counts contingency_table);
               (r, k) = shape (counts contingency_table);
               phi2 = fl_div l chi2 (real n);
               cramers_v = fl_sqrt l (fl_div l phi2 (real_of_int (denom r k)))
           in Inr (contingency_table, cramers_v, p_value)))))"

definition cat_on_cat_effect_size ::
  "lib \<Rightarrow> store \<Rightarrow> ref \<Rightarrow> string \<Rightarrow> string \<Rightarrow> real \<Rightarrow>
     (error + (result_text \<times> crosstable)) \<times> store" where
  "cat_on_cat_effect_size l st df cat_col1 cat_col2 alpha =
     (case cat_on_cat_stats l (deref st df) cat_col1 cat_col2 of
        Inl e \<Rightarrow> (Inl e, st)
      | Inr (contingency_table, cramers_v, p_value) \<Rightarrow>
          (if p_value \<le> alpha
           then (case interpret_effect_size (Some cramers_v) name_cramer of
                   Inl e \<Rightarrow> (Inl e, st)
                 | Inr interpretation \<Rightarrow>
                     (Inr (Effect Cramers_V (Some cramers_v) interpretation (Some p_value),
                           contingency_table), st))
           else (Inr (Not_significant (Some p_value) alpha, contingency_table), st)))"


section \<open>Categorical on numerical\<close>

text \<open>Float arithmetic: a NaN operand makes the result NaN.\<close>

definition lift2 :: "(real \<Rightarrow> real \<Rightarrow> real) \<Rightarrow> pyfloat \<Rightarrow> pyfloat \<Rightarrow> pyfloat" where
  "lift2 f x y = (case (x, y) of (Some a, Some b) \<Rightarrow> Some (f a b) | _ \<Rightarrow> None)"

text \<open>
  \<^verbatim>\<open>Series.mean()\<close> and \<^verbatim>\<open>Series.var(ddof=1)\<close> as pandas computes them: the mean is
  the sum over the count; the variance is the sum of the squared differences between the
  mean and the values, over the count less one (pandas' own \<^verbatim>\<open>nanmean\<close> and
  \<^verbatim>\<open>nanvar\<close>, on NumPy's sums). The mean of no value is NaN, and so is the sample
  variance of fewer than two values.
\<close>

definition mean :: "lib \<Rightarrow> real list \<Rightarrow> pyfloat" where
  "mean l xs = (if xs = [] then None else Some (fl_div l (fl_sum l xs) (real (length xs))))"

definition var :: "lib \<Rightarrow> real list \<Rightarrow> pyfloat" where
  "var l xs =
     (if length xs \<le> 1 then None
      else
        (let avg = fl_div l (fl_sum l xs) (real (length xs));
             sqr = map (\<lambda>x. let d = fl_sub l avg x in fl_mul l d d) xs
         in Some (fl_div l (fl_sum l sqr) (real (length xs - 1)))))"

text \<open>\<^verbatim>\<open>df[df[cat_col] == u][num_col]\<close>: the numbers of the rows whose category is \<open>u\<close>.\<close>

definition group :: "column \<Rightarrow> column \<Rightarrow> cell \<Rightarrow> real list" where
  "group cat num u = numbers (map snd (filter (\<lambda>(c, x). c = u) (zip cat num)))"

definition pooled_std :: "lib \<Rightarrow> real list \<Rightarrow> real list \<Rightarrow> pyfloat" where
  "pooled_std l group1 group2 =
     map_option (fl_sqrt l)
       (lift2 (fl_div l) (lift2 (fl_add l) (var l group1) (var l group2)) (Some 2))"

definition too_few_categories :: string where
  "too_few_categories = ''Categorical column must have at least 2 categories for comparison.''"

definition zero_pooled_std :: string where
  "zero_pooled_std = ''Pooled standard deviation is zero; cannot compute Cohen's d.''"

definition name_cohen :: string where
  "name_cohen = ''Cohen's d''"

definition name_eta :: string where
  "name_eta = ''Eta Squared''"

definition name_pearson :: string where
  "name_pearson = ''Pearson's r''"

text \<open>
  The statistics of \<^verbatim>\<open>cat_on_num_effect_size\<close> on the cleaned frame, up to the branch on
  the p-value: which effect size, its value and the p-value.
\<close>

definition cat_on_num_stats ::
  "lib \<Rightarrow> table \<Rightarrow> string \<Rightarrow> string \<Rightarrow> error + (metric \<times> pyfloat \<times> pyfloat)" where
  "cat_on_num_stats l df cat_col num_col =
     (case getitem df cat_col of
        Inl e \<Rightarrow> Inl e
      | Inr cat \<Rightarrow>
     (case getitem df num_col of
        Inl e \<Rightarrow> Inl e
      | Inr num \<Rightarrow>
     (let num_categories = nunique cat in
      if num_categories < 2
      then Inl (ValueError too_few_categories)
      else if num_categories = 2
      then
        (let unique_vals = unique cat;
             group1 = group cat num (unique_vals ! 0);
             group2 = group cat num (unique_vals ! 1);
             (t_stat, p_value) = ttest_ind l group1 group2;
             pooled = pooled_std l group1 group2
         in if pooled = Some 0
            then Inl (ValueError zero_pooled_std)
            else
              (let cohen_d_value =
                     lift2 (fl_div l) (lift2 (fl_sub l) (mean l group1) (mean l group2)) pooled
               in Inr (Cohens_d, cohen_d_value, p_value)))
      else
        (let (p_value, eta_squared_value) = anova l (zip cat (numbers num))
         in Inr (Eta_Squared, eta_squared_value, p_value)))))"

text \<open>
  The output branch, the same text in both branches of the source but for the name of the
  effect size.
\<close>

definition metric_name :: "metric \<Rightarrow> string" where
  "metric_name m =
     (case m of Cramers_V \<Rightarrow> name_cramer | Cohens_d \<Rightarrow> name_cohen
      | Eta_Squared \<Rightarrow> name_eta | Pearsons_r \<Rightarrow> name_pearson)"

text \<open>
  The first three lines of \<^verbatim>\<open>cat_on_num_effect_size\<close>: the frame is copied, the numeric
  column of the copy is coerced, and the rows of the copy that are complete in both
  columns make the cleaned frame, a new object.
\<close>

definition clean_cat_num ::
  "lib \<Rightarrow> store \<Rightarrow> ref \<Rightarrow> string \<Rightarrow> string \<Rightarrow> (error + ref) \<times> store" where
  "clean_cat_num l st df cat_col num_col =
     (let (df1, st1) = copy st df in
      case getitem (deref st1 df1) num_col of
        Inl e \<Rightarrow> (Inl e, st1)
      | Inr col \<Rightarrow>
     (let st2 = assign_column st1 df1 num_col (to_numeric (parse_number l) col) in
      case dropna (deref st2 df1) [cat_col, num_col] of
        Inl e \<Rightarrow> (Inl e, st2)
      | Inr cleaned \<Rightarrow> (let (df2, st3) = alloc st2 cleaned in (Inr df2, st3))))"

definition cat_on_num_effect_size ::
  "lib \<Rightarrow> store \<Rightarrow> ref \<Rightarrow> string \<Rightarrow> string \<Rightarrow> real \<Rightarrow>
     (error + (result_text \<times> ref)) \<times> store" where
  "cat_on_num_effect_size l st df cat_col num_col alpha =
     (case clean_cat_num l st df cat_col num_col of
        (Inl e, st') \<Rightarrow> (Inl e, st')
      | (Inr df2, st') \<Rightarrow>
     (case cat_on_num_stats l (deref st' df2) cat_col num_col of
        Inl e \<Rightarrow> (Inl e, st')
      | Inr (m, effect_value, p_value) \<Rightarrow>
          (if le_float p_value alpha
           then (case interpret_effect_size effect_value (metric_name m) of
                   Inl e \<Rightarrow> (Inl e, st')
                 | Inr interpretation \<Rightarrow>
                     (Inr (Effect m effect_value interpretation p_value, df2), st'))
           else (Inr (Not_significant p_value alpha, df2), st'))))"

section \<open>Numerical correlation\<close>

definition correlation_stats ::
  "lib \<Rightarrow> table \<Rightarrow> string \<Rightarrow> string \<Rightarrow> error + (pyfloat \<times> pyfloat)" where
  "correlation_stats l df col1 col2 =
     (if nrows df < 2 then Inl (ValueError ''Not enough valid numeric data for correlation.'')
      else
        (case getitem df col1 of
           Inl e \<Rightarrow> Inl e
         | Inr c1 \<Rightarrow>
        (case getitem df col2 of
           Inl e \<Rightarrow> Inl e
         | Inr c2 \<Rightarrow> Inr (pearsonr l (numbers c1) (numbers c2)))))"

text \<open>
  The first four lines of \<^verbatim>\<open>correlation_effect_size\<close>: both columns of a copy are
  coerced, and the complete rows of the copy make the cleaned frame.
\<close>

definition clean_num_num ::
  "lib \<Rightarrow> store \<Rightarrow> ref \<Rightarrow> string \<Rightarrow> string \<Rightarrow> (error + ref) \<times> store" where
  "clean_num_num l st df col1 col2 =
     (let (df1, st1) = copy st df in
      case getitem (deref st1 df1) col1 of
        Inl e \<Rightarrow> (Inl e, st1)
      | Inr c1 \<Rightarrow>
     (let st2 = assign_column st1 df1 col1 (to_numeric (parse_number l) c1) in
      case getitem (deref st2 df1) col2 of
        Inl e \<Rightarrow> (Inl e, st2)
      | Inr c2 \<Rightarrow>
     (let st3 = assign_column st2 df1 col2 (to_numeric (parse_number l) c2) in
      case dropna (deref st3 df1) [col1, col2] of
        Inl e \<Rightarrow> (Inl e, st3)
      | Inr cleaned \<Rightarrow> (let (df2, st4) = alloc st3 cleaned in (Inr df2, st4)))))"

definition correlation_effect_size ::
  "lib \<Rightarrow> store \<Rightarrow> ref \<Rightarrow> string \<Rightarrow> string \<Rightarrow> real \<Rightarrow>
     (error + (result_text \<times> ref)) \<times> store" where
  "correlation_effect_size l st df col1 col2 alpha =
     (case clean_num_num l st df col1 col2 of
        (Inl e, st') \<Rightarrow> (Inl e, st')
      | (Inr df2, st') \<Rightarrow>
     (case correlation_stats l (deref st' df2) col1 col2 of
        Inl e \<Rightarrow> (Inl e, st')
      | Inr (r, p_value) \<Rightarrow>
          (if le_float p_value alpha
           then (case interpret_effect_size r name_pearson of
                   Inl e \<Rightarrow> (Inl e, st')
                 | Inr interpretation \<Rightarrow>
                     (Inr (Effect Pearsons_r r interpretation p_value, df2), st'))
           else (Inr (Not_significant p_value alpha, df2), st'))))"

section \<open>The dispatch of the main window\<close>

text \<open>
  \<^verbatim>\<open>EffectSizeCalculator.calculate_effect_size\<close>: what the method reads from the window
  (the loaded frame if there is one, the text of the alpha entry, the three menus) and
  what it shows: a warning, an error box or the text of the result. \<^verbatim>\<open>float(text)\<close> is
  the parameter \<open>float_of_text\<close>; \<open>None\<close> is its \<^verbatim>\<open>ValueError\<close>.
\<close>

record window =
  loaded :: "ref option"
  alpha_entry :: string
  effect_type_menu :: string
  col1_menu :: string
  col2_menu :: string

datatype shown =
    Warning_no_dataset
  | Error_alpha_not_numeric
  | Error_same_columns
  | Error_raised error
  | Result_text result_text

text \<open>
  The end of the \<^verbatim>\<open>try\<close> block: the text of a result is shown, an exception is shown in
  an error box.
\<close>

fun show_result :: "(error + (result_text \<times> 'a)) \<times> store \<Rightarrow> shown \<times> store" where
  "show_result (Inl e, st) = (Error_raised e, st)"
| "show_result (Inr (result_text, used), st) = (Result_text result_text, st)"

definition calculate_effect_size :: "lib \<Rightarrow> window \<Rightarrow> store \<Rightarrow> shown \<times> store" where
  "calculate_effect_size l self st =
     (case loaded self of
        None \<Rightarrow> (Warning_no_dataset, st)
      | Some df \<Rightarrow>
     (case float_of_text l (alpha_entry self) of
        None \<Rightarrow> (Error_alpha_not_numeric, st)
      | Some alpha \<Rightarrow>
     (let effect_type = effect_type_menu self;
          col1 = col1_menu self;
          col2 = col2_menu self
      in if col1 = col2 then (Error_same_columns, st)
         else if effect_type = ''Categorical on Categorical''
         then show_result (cat_on_cat_effect_size l st df col1 col2 alpha)
         else if effect_type = ''Categorical on Numerical''
         then show_result (cat_on_num_effect_size l st df col1 col2 alpha)
         else show_result (correlation_effect_size l st df col1 col2 alpha))))"

section \<open>Two arithmetics\<close>

text \<open>Exact arithmetic: no operation rounds.\<close>

definition exact_arith :: "lib \<Rightarrow> bool" where
  "exact_arith l \<longleftrightarrow>
     fl_add l = (+) \<and> fl_sub l = (-) \<and> fl_mul l = (*) \<and> fl_div l = (/) \<and>
     fl_sqrt l = sqrt \<and> fl_sum l = sum_list"

text \<open>
  The arithmetic of doubles (IEEE 754 binary64, round to nearest, ties to even): the exact
  result of an operation is replaced by the nearest number with a significand of 53 bits.
  The range of the exponent is not bounded here: overflow and gradual underflow are not
  modelled.
\<close>

definition rne :: "real \<Rightarrow> int" where
  "rne y =
     (let f = \<lfloor>y\<rfloor> in
      if y - of_int f < 1 / 2 then f
      else if 1 / 2 < y - of_int f then f + 1
      else if even f then f else f + 1)"

definition round64 :: "real \<Rightarrow> real" where
  "round64 x =
     (if x = 0 then 0
      else let e = \<lfloor>log 2 \<bar>x\<bar>\<rfloor>; u = 2 powi (e - 52)
           in sgn x * of_int (rne (\<bar>x\<bar> / u)) * u)"

text \<open>
  NumPy's sum of a contiguous array of doubles (\<^verbatim>\<open>pairwise_sum\<close>): fewer than eight
  numbers are added one after the other, starting from 0; up to 128 numbers go into eight
  running sums, one block of eight at a time, the eight sums are added in pairs and the
  numbers left over are added one after the other; a longer array is cut in two near the
  middle, at a multiple of eight. The result is added to the 0 the reduction starts from.
\<close>

fun add_blocks ::
  "(real \<Rightarrow> real \<Rightarrow> real) \<Rightarrow> real list \<Rightarrow> real list \<Rightarrow> real list \<times> real list" where
  "add_blocks add r a =
     (if 8 \<le> length a then add_blocks add (map2 add r (take 8 a)) (drop 8 a) else (r, a))"

function pairwise_sum :: "(real \<Rightarrow> real \<Rightarrow> real) \<Rightarrow> real list \<Rightarrow> real" where
  "pairwise_sum add a =
     (if length a < 8 then foldl add 0 a
      else if length a \<le> 128
      then
        (let (r, rest) = add_blocks add (take 8 a) (drop 8 a);
             res = add (add (add (r ! 0) (r ! 1)) (add (r ! 2) (r ! 3)))
                       (add (add (r ! 4) (r ! 5)) (add (r ! 6) (r ! 7)))
         in foldl add res rest)
      else
        (let n2 = length a div 2 - (length a div 2) mod 8
         in add (pairwise_sum add (take n2 a)) (pairwise_sum add (drop n2 a))))"
  by pat_completeness auto
termination
  by (relation "measure (\<lambda>(add, a). length a)") auto

declare add_blocks.simps [simp del]

declare pairwise_sum.simps [simp del]

definition np_sum :: "(real \<Rightarrow> real \<Rightarrow> real) \<Rightarrow> real list \<Rightarrow> real" where
  "np_sum add a = add 0 (pairwise_sum add a)"

named_theorems r64 \<open>values of the rounding to doubles\<close>

section \<open>Example data\<close>

text \<open>
  A library whose tests always report the p-value 0.01, whose number parser reads no text
  as a number, whose \<^verbatim>\<open>float\<close> reads the text \<^verbatim>\<open>2\<close> as 2 and no other text, and
  whose arithmetic is exact.
\<close>

definition example_lib :: lib where
  "example_lib =
     \<lparr> parse_number = (\<lambda>s. None),
       chi2_sf = (\<lambda>chi2 dof. 1 / 100),
       ttest_ind = (\<lambda>g1 g2. (Some 0, Some (1 / 100))),
       anova = (\<lambda>rows. (Some (1 / 100), Some (1 / 2))),
       pearsonr = (\<lambda>xs ys. (Some 1, Some (1 / 100))),
       float_of_text = (\<lambda>s. if s = ''2'' then Some 2 else None),
       fl_add = (+), fl_sub = (-), fl_mul = (*), fl_div = (/),
       fl_sqrt = sqrt, fl_sum = sum_list \<rparr>"

text \<open>The same library with the arithmetic of doubles.\<close>

definition double_lib :: lib where
  "double_lib =
     example_lib
       \<lparr> fl_add := (\<lambda>x y. round64 (x + y)),
         fl_sub := (\<lambda>x y. round64 (x - y)),
         fl_mul := (\<lambda>x y. round64 (x * y)),
         fl_div := (\<lambda>x y. round64 (x / y)),
         fl_sqrt := (\<lambda>x. round64 (sqrt x)),
         fl_sum := np_sum (\<lambda>x y. round64 (x + y)) \<rparr>"

text \<open>Three rows, three groups, two outcomes: a 3 by 2 contingency table.\<close>

definition example_survey :: table where
  "example_survey =
     [(''group'', [Str ''A'', Str ''B'', Str ''C'']),
      (''outcome'', [Str ''yes'', Str ''no'', Str ''yes''])]"

text \<open>Two rows of one group: a contingency table without a degree of freedom.\<close>

definition example_one_group :: table where
  "example_one_group =
     [(''group'', [Str ''A'', Str ''A'']),
      (''outcome'', [Str ''yes'', Str ''no''])]"


text \<open>
  Two groups of three equal scores: the doubles nearest to 0.1 in one group and nearest
  to 0.3 in the other.
\<close>

definition example_constant :: table where
  "example_constant =
     [(''group'', [Str ''A'', Str ''A'', Str ''A'', Str ''B'', Str ''B'', Str ''B'']),
      (''score'',
         [Num (3602879701896397 / 36028797018963968),
          Num (3602879701896397 / 36028797018963968),
          Num (3602879701896397 / 36028797018963968),
          Num (5404319552844595 / 18014398509481984),
          Num (5404319552844595 / 18014398509481984),
          Num (5404319552844595 / 18014398509481984)])]"

text \<open>Two groups of three scores each, and the same rows with the groups swapped.\<close>

definition example_scores :: table where
  "example_scores =
     [(''group'', [Str ''A'', Str ''A'', Str ''A'', Str ''B'', Str ''B'', Str ''B'']),
      (''score'', [Num 0, Num 2, Num 4, Num 10, Num 12, Num 14])]"

definition example_scores_swapped :: table where
  "example_scores_swapped =
     [(''group'', [Str ''B'', Str ''B'', Str ''B'', Str ''A'', Str ''A'', Str ''A'']),
      (''score'', [Num 10, Num 12, Num 14, Num 0, Num 2, Num 4])]"

text \<open>Two numeric columns, one cell of which does not read as a number.\<close>

definition example_measures :: table where
  "example_measures =
     [(''x'', [Num 1, Num 2, Num 3]),
      (''y'', [Num 2, Str ''n/a'', Num 6])]"

text \<open>The rows of a frame with two columns, as pairs.\<close>

definition rows_of :: "table \<Rightarrow> string \<Rightarrow> string \<Rightarrow> (cell \<times> cell) list" where
  "rows_of df c1 c2 =
     (case (getitem df c1, getitem df c2) of (Inr a, Inr b) \<Rightarrow> zip a b | _ \<Rightarrow> [])"

section \<open>Properties of the interpretation\<close>

lemma scan_bands_cohen:
  "scan_bands (Some v) bands_cohen =
     Some (if \<bar>v\<bar> < 0.2 then ''small effect size''
           else if \<bar>v\<bar> < 0.5 then ''medium effect size''
           else if \<bar>v\<bar> < 0.8 then ''large effect size''
           else ''very large effect size'')"
  by (simp add: bands_cohen_def abs_float_def)

lemma scan_bands_eta:
  "scan_bands (Some v) bands_eta =
     Some (if \<bar>v\<bar> < 0.01 then ''small effect size''
           else if \<bar>v\<bar> < 0.06 then ''medium effect size''
           else if \<bar>v\<bar> < 0.14 then ''large effect size''
           else ''very large effect size'')"
  by (simp add: bands_eta_def abs_float_def)

lemma scan_bands_pearson:
  "scan_bands (Some v) bands_pearson =
     Some (if \<bar>v\<bar> < 0.1 then ''negligible correlation''
           else if \<bar>v\<bar> < 0.3 then ''small correlation''
           else if \<bar>v\<bar> < 0.5 then ''medium correlation''
           else if \<bar>v\<bar> < 0.7 then ''large correlation''
           else if \<bar>v\<bar> < 0.9 then ''very large correlation''
           else ''perfect correlation'')"
  by (simp add: bands_pearson_def abs_float_def)

lemma scan_bands_cramer:
  "scan_bands (Some v) bands_cramer =
     Some (if \<bar>v\<bar> < 0.1 then ''small effect size''
           else if \<bar>v\<bar> < 0.3 then ''medium effect size''
           else if \<bar>v\<bar> < 0.5 then ''large effect size''
           else ''very large effect size'')"
  by (simp add: bands_cramer_def abs_float_def)

lemma keys_distinct:
  "key_cohen \<noteq> key_eta" "key_cohen \<noteq> key_pearson" "key_cohen \<noteq> key_cramer"
  "key_eta \<noteq> key_pearson" "key_eta \<noteq> key_cramer" "key_pearson \<noteq> key_cramer"
  by (simp_all add: key_cohen_def key_eta_def key_pearson_def key_cramer_def)

lemma interpretations_cases:
  assumes "interpretations k = Some bands"
  shows "bands = bands_cohen \<or> bands = bands_eta \<or> bands = bands_pearson \<or> bands = bands_cramer"
  using assms by (auto simp: interpretations_def split: if_splits)


lemma scan_bands_total:
  assumes "interpretations k = Some bands"
  shows "\<exists>l. scan_bands (Some v) bands = Some l"
  using interpretations_cases[OF assms]
    scan_bands_cohen scan_bands_eta scan_bands_pearson scan_bands_cramer by metis

lemma rank_labels_cohen:
  "label_rank bands_cohen
     (if a then ''small effect size'' else if b then ''medium effect size'' else if c then ''large effect size'' else ''very large effect size'') =
     (if a then 0 else if b then 1 else if c then 2 else 3)"
  by (simp add: bands_cohen_def)

lemma rank_of_scan_cohen:
  "scan_bands (Some v) bands_cohen = Some l \<Longrightarrow>
     label_rank bands_cohen l =
       (if \<bar>v\<bar> < 0.2 then 0 else if \<bar>v\<bar> < 0.5 then 1 else if \<bar>v\<bar> < 0.8 then 2 else 3)"
  unfolding scan_bands_cohen using rank_labels_cohen [of "\<bar>v\<bar> < 0.2" "\<bar>v\<bar> < 0.5" "\<bar>v\<bar> < 0.8"] by auto

lemma band_index_cohen_mono:
  "\<bar>x::real\<bar> \<le> \<bar>y\<bar> \<Longrightarrow>
     (if \<bar>x\<bar> < 0.2 then 0 else if \<bar>x\<bar> < 0.5 then 1 else if \<bar>x\<bar> < 0.8 then 2 else 3 :: nat)
       \<le> (if \<bar>y\<bar> < 0.2 then 0 else if \<bar>y\<bar> < 0.5 then 1 else if \<bar>y\<bar> < 0.8 then 2 else 3)"
  by auto

lemma rank_cohen:
  "\<bar>x\<bar> \<le> \<bar>y\<bar> \<Longrightarrow> scan_bands (Some x) bands_cohen = Some lx \<Longrightarrow>
   scan_bands (Some y) bands_cohen = Some ly \<Longrightarrow>
     label_rank bands_cohen lx \<le> label_rank bands_cohen ly"
  by (simp only: rank_of_scan_cohen band_index_cohen_mono)

lemma rank_labels_eta:
  "label_rank bands_eta
     (if a then ''small effect size'' else if b then ''medium effect size'' else if c then ''large effect size'' else ''very large effect size'') =
     (if a then 0 else if b then 1 else if c then 2 else 3)"
  by (simp add: bands_eta_def)

lemma rank_of_scan_eta:
  "scan_bands (Some v) bands_eta = Some l \<Longrightarrow>
     label_rank bands_eta l =
       (if \<bar>v\<bar> < 0.01 then 0 else if \<bar>v\<bar> < 0.06 then 1 else if \<bar>v\<bar> < 0.14 then 2 else 3)"
  unfolding scan_bands_eta using rank_labels_eta [of "\<bar>v\<bar> < 0.01" "\<bar>v\<bar> < 0.06" "\<bar>v\<bar> < 0.14"] by auto

lemma band_index_eta_mono:
  "\<bar>x::real\<bar> \<le> \<bar>y\<bar> \<Longrightarrow>
     (if \<bar>x\<bar> < 0.01 then 0 else if \<bar>x\<bar> < 0.06 then 1 else if \<bar>x\<bar> < 0.14 then 2 else 3 :: nat)
       \<le> (if \<bar>y\<bar> < 0.01 then 0 else if \<bar>y\<bar> < 0.06 then 1 else if \<bar>y\<bar> < 0.14 then 2 else 3)"
  by auto

lemma rank_eta:
  "\<bar>x\<bar> \<le> \<bar>y\<bar> \<Longrightarrow> scan_bands (Some x) bands_eta = Some lx \<Longrightarrow>
   scan_bands (Some y) bands_eta = Some ly \<Longrightarrow>
     label_rank bands_eta lx \<le> label_rank bands_eta ly"
  by (simp only: rank_of_scan_eta band_index_eta_mono)

lemma rank_labels_pearson:
  "label_rank bands_pearson
     (if a then ''negligible correlation'' else if b then ''small correlation'' else if c then ''medium correlation'' else if d then ''large correlation'' else if e then ''very large correlation'' else ''perfect correlation'') =
     (if a then 0 else if b then 1 else if c then 2 else if d then 3 else if e then 4 else 5)"
  by (simp add: bands_pearson_def)

lemma rank_of_scan_pearson:
  "scan_bands (Some v) bands_pearson = Some l \<Longrightarrow>
     label_rank bands_pearson l =
       (if \<bar>v\<bar> < 0.1 then 0 else if \<bar>v\<bar> < 0.3 then 1 else if \<bar>v\<bar> < 0.5 then 2 else if \<bar>v\<bar> < 0.7 then 3 else if \<bar>v\<bar> < 0.9 then 4 else 5)"
  unfolding scan_bands_pearson using rank_labels_pearson [of "\<bar>v\<bar> < 0.1" "\<bar>v\<bar> < 0.3" "\<bar>v\<bar> < 0.5" "\<bar>v\<bar> < 0.7" "\<bar>v\<bar> < 0.9"] by auto

lemma band_index_pearson_mono:
  "\<bar>x::real\<bar> \<le> \<bar>y\<bar> \<Longrightarrow>
     (if \<bar>x\<bar> < 0.1 then 0 else if \<bar>x\<bar> < 0.3 then 1 else if \<bar>x\<bar> < 0.5 then 2 else if \<bar>x\<bar> < 0.7 then 3 else if \<bar>x\<bar> < 0.9 then 4 else 5 :: nat)
       \<le> (if \<bar>y\<bar> < 0.1 then 0 else if \<bar>y\<bar> < 0.3 then 1 else if \<bar>y\<bar> < 0.5 then 2 else if \<bar>y\<bar> < 0.7 then 3 else if \<bar>y\<bar> < 0.9 then 4 else 5)"
  by auto

lemma rank_pearson:
  "\<bar>x\<bar> \<le> \<bar>y\<bar> \<Longrightarrow> scan_bands (Some x) bands_pearson = Some lx \<Longrightarrow>
   scan_bands (Some y) bands_pearson = Some ly \<Longrightarrow>
     label_rank bands_pearson lx \<le> label_rank bands_pearson ly"
  by (simp only: rank_of_scan_pearson band_index_pearson_mono)

lemma rank_labels_cramer:
  "label_rank bands_cramer
     (if a then ''small effect size'' else if b then ''medium effect size'' else if c then ''large effect size'' else ''very large effect size'') =
     (if a then 0 else if b then 1 else if c then 2 else 3)"
  by (simp add: bands_cramer_def)

lemma rank_of_scan_cramer:
  "scan_bands (Some v) bands_cramer = Some l \<Longrightarrow>
     label_rank bands_cramer l =
       (if \<bar>v\<bar> < 0.1 then 0 else if \<bar>v\<bar> < 0.3 then 1 else if \<bar>v\<bar> < 0.5 then 2 else 3)"
  unfolding scan_bands_cramer using rank_labels_cramer [of "\<bar>v\<bar> < 0.1" "\<bar>v\<bar> < 0.3" "\<bar>v\<bar> < 0.5"] by auto

lemma band_index_cramer_mono:
  "\<bar>x::real\<bar> \<le> \<bar>y\<bar> \<Longrightarrow>
     (if \<bar>x\<bar> < 0.1 then 0 else if \<bar>x\<bar> < 0.3 then 1 else if \<bar>x\<bar> < 0.5 then 2 else 3 :: nat)
       \<le> (if \<bar>y\<bar> < 0.1 then 0 else if \<bar>y\<bar> < 0.3 then 1 else if \<bar>y\<bar> < 0.5 then 2 else 3)"
  by auto

lemma rank_cramer:
  "\<bar>x\<bar> \<le> \<bar>y\<bar> \<Longrightarrow> scan_bands (Some x) bands_cramer = Some lx \<Longrightarrow>
   scan_bands (Some y) bands_cramer = Some ly \<Longrightarrow>
     label_rank bands_cramer lx \<le> label_rank bands_cramer ly"
  by (simp only: rank_of_scan_cramer band_index_cramer_mono)



text \<open>
  Claim C8. A kind that is none of the four keys after lower-casing makes
  \<open>interpret_effect_size\<close> fail with the dictionary's \<^verbatim>\<open>KeyError\<close>, whatever the value.
\<close>

theorem interpret_unknown_kind:
  "lower effect_type \<notin> {key_cohen, key_eta, key_pearson, key_cramer} \<Longrightarrow>
     interpret_effect_size value effect_type = Inl KeyError"
  by (simp add: interpret_effect_size_def interpretations_def)

theorem interpret_unknown_kind_witness:
  "lower ''Hedges' g'' \<notin> {key_cohen, key_eta, key_pearson, key_cramer} \<and>
   interpret_effect_size (Some 0.3) ''Hedges' g'' = Inl KeyError"
proof -
  have h: "lower ''Hedges' g'' \<notin> {key_cohen, key_eta, key_pearson, key_cramer}"
    by (simp add: lower_def lower_char_def key_cohen_def key_eta_def key_pearson_def
        key_cramer_def)
  show ?thesis using h interpret_unknown_kind [OF h, of "Some 0.3"] by simp
qed

text \<open>
  Claim C6. For each of the four kinds a label is returned for both values, and a value
  that is not smaller in absolute value gets a label that stands no earlier in the band list.
\<close>

theorem interpret_monotonic:
  assumes k: "interpretations (lower effect_type) = Some bands"
    and xy: "\<bar>x\<bar> \<le> \<bar>y\<bar>"
  shows "\<exists>lx ly. interpret_effect_size (Some x) effect_type = Inr (Some lx) \<and>
                 interpret_effect_size (Some y) effect_type = Inr (Some ly) \<and>
                 label_rank bands lx \<le> label_rank bands ly"
proof -
  from scan_bands_total[OF k] obtain lx ly
    where lx: "scan_bands (Some x) bands = Some lx" and ly: "scan_bands (Some y) bands = Some ly"
    by metis
  have "label_rank bands lx \<le> label_rank bands ly"
    using interpretations_cases[OF k] xy lx ly rank_cohen rank_eta rank_pearson rank_cramer
    by blast
  then show ?thesis using k lx ly by (simp add: interpret_effect_size_def)
qed

theorem interpret_monotonic_witness:
  "interpretations (lower ''Pearson's r'') = Some bands_pearson \<and> \<bar>0.2::real\<bar> \<le> \<bar>- 0.95\<bar> \<and>
   (\<exists>lx ly. interpret_effect_size (Some 0.2) ''Pearson's r'' = Inr (Some lx) \<and>
            interpret_effect_size (Some (- 0.95)) ''Pearson's r'' = Inr (Some ly) \<and>
            label_rank bands_pearson lx \<le> label_rank bands_pearson ly)"
proof -
  have h: "interpretations (lower ''Pearson's r'') = Some bands_pearson"
    by (simp add: interpretations_def lower_def lower_char_def key_cohen_def key_eta_def
        key_pearson_def)
  have xy: "\<bar>0.2::real\<bar> \<le> \<bar>- 0.95\<bar>" by simp
  show ?thesis using h xy interpret_monotonic [OF h xy] by simp
qed

section \<open>Properties of the categorical analyzer\<close>





lemma set_unique [simp]: "set (unique xs) = set xs"
  by (induction xs) auto

lemma distinct_unique [simp]: "distinct (unique xs)"
  by (induction xs) auto

lemma length_unique: "length (unique xs) = card (set xs)"
  using distinct_card[of "unique xs"] by simp

lemma unique_Nil_iff [simp]: "unique xs = [] \<longleftrightarrow> xs = []"
  by (cases xs) auto



lemma total_matrix:
  "total (map (\<lambda>x. map (g x) ys) xs) = sum_list (map (\<lambda>x. sum_list (map (g x) ys)) xs)"
  by (simp add: total_def comp_def)

lemma shape_matrix:
  "shape (map (\<lambda>x. map (g x) ys) xs) = (int (length xs), (if xs = [] then 0 else int (length ys)))"
  by (cases xs) (simp_all add: shape_def)

lemma exact_ops:
  assumes "exact_arith l"
  shows "fl_add l x y = x + y" "fl_sub l x y = x - y" "fl_mul l x y = x * y"
    "fl_div l x y = x / y" "fl_sqrt l x = sqrt x" "fl_sum l xs = sum_list xs"
  using assms by (simp_all add: exact_arith_def)








lemma count_pairs_total:
  "(\<Sum>x\<in>set (map fst ps). \<Sum>y\<in>set (map snd ps). count_list ps (x, y)) = length ps"
proof -
  have sub: "set ps \<subseteq> set (map fst ps) \<times> set (map snd ps)"
    by (force simp: image_iff)
  have "(\<Sum>x\<in>set (map fst ps). \<Sum>y\<in>set (map snd ps). count_list ps (x, y))
      = (\<Sum>z\<in>set (map fst ps) \<times> set (map snd ps). count_list ps z)"
    by (simp add: sum.cartesian_product)
  also have "\<dots> = length ps"
    by (rule sum_count_set[OF sub]) simp
  finally show ?thesis .
qed






lemma crosstab_counts:
  "counts (crosstab a b) =
     map (\<lambda>x. map (\<lambda>y. count_list (observed_pairs a b) (x, y))
                  (unique (map snd (observed_pairs a b))))
       (unique (map fst (observed_pairs a b)))"
  by (simp add: crosstab_def Let_def)



lemma crosstab_total: "total (counts (crosstab a b)) = length (observed_pairs a b)"
proof -
  have sx: "sum_list (map h (unique (map fst ps))) = sum h (set (map fst ps))"
    for h :: "cell \<Rightarrow> nat" and ps :: "(cell \<times> cell) list"
    by (subst sum_list_distinct_conv_sum_set) simp_all
  have sy: "sum_list (map h (unique (map snd ps))) = sum h (set (map snd ps))"
    for h :: "cell \<Rightarrow> nat" and ps :: "(cell \<times> cell) list"
    by (subst sum_list_distinct_conv_sum_set) simp_all
  show ?thesis
    unfolding crosstab_counts total_matrix sx sy by (rule count_pairs_total)
qed

lemma crosstab_shape:
  "shape (counts (crosstab a b)) =
     (int (card (fst ` set (observed_pairs a b))), int (card (snd ` set (observed_pairs a b))))"
proof (cases "observed_pairs a b = []")
  case True
  then show ?thesis by (simp add: crosstab_counts shape_def)
next
  case False
  then show ?thesis
    unfolding crosstab_counts shape_matrix by (simp add: length_unique)
qed



lemma example_lib_exact: "exact_arith example_lib"
  by (simp add: exact_arith_def example_lib_def)

lemma example_survey_group:
  "getitem example_survey ''group'' = Inr [Str ''A'', Str ''B'', Str ''C'']"
  by (simp add: getitem_def example_survey_def)

lemma example_survey_outcome:
  "getitem example_survey ''outcome'' = Inr [Str ''yes'', Str ''no'', Str ''yes'']"
  by (simp add: getitem_def example_survey_def)

lemma example_survey_crosstab:
  "crosstab [Str ''A'', Str ''B'', Str ''C''] [Str ''yes'', Str ''no'', Str ''yes''] =
     \<lparr> index = [Str ''A'', Str ''B'', Str ''C''], columns = [Str ''yes'', Str ''no''],
       counts = [[1, 0], [0, 1], [1, 0]] \<rparr>"
  by (simp add: crosstab_def observed_pairs_def Let_def)

lemma example_survey_chi2:
  "chi2_contingency example_lib [[1, 0], [0, 1], [1, 0]] = Inr (3, 1 / 100, 2)"
  by (simp add: chi2_contingency_def shape_def expected_freq_def col_sums_def total_def
      pearson_terms_def pearson_term_def example_lib_def Let_def)
text \<open>
  Claim C2. With \<open>n\<close> the number of rows that have both categories, \<open>r\<close> and \<open>k\<close> the
  numbers of distinct values of the two columns among these rows and \<open>chi2\<close> the statistic
  of the test on the contingency table, the analyzer computes the effect size
  \<open>sqrt ((chi2 / n) / denom)\<close>, where \<open>denom\<close> is \<open>min (r - 1) (k - 1)\<close>, or 1 when that
  minimum is not positive. The two divisions and the square root are those of the floats,
  whatever their arithmetic.
\<close>

theorem cramers_v_formula:
  fixes a b :: column
  defines "pairs \<equiv> observed_pairs a b"
  defines "n \<equiv> length pairs"
    and "r \<equiv> int (card (fst ` set pairs))"
    and "k \<equiv> int (card (snd ` set pairs))"
  assumes "getitem df cat_col1 = Inr a" and "getitem df cat_col2 = Inr b"
    and "chi2_contingency l (counts (crosstab a b)) = Inr (chi2, p_value, dof)"
  shows "cat_on_cat_stats l df cat_col1 cat_col2 =
           Inr (crosstab a b,
                fl_sqrt l
                  (fl_div l (fl_div l chi2 (real n))
                     (real_of_int
                        (if min (r - 1) (k - 1) \<le> 0 then 1 else min (r - 1) (k - 1)))),
                p_value)"
proof -
  have d: "denom r k = (if min (r - 1) (k - 1) \<le> 0 then 1 else min (r - 1) (k - 1))"
    by (auto simp: denom_def min_def)
  have sh: "shape (counts (crosstab a b)) = (r, k)"
    by (simp add: crosstab_shape r_def k_def pairs_def)
  have tot: "total (counts (crosstab a b)) = n"
    by (simp add: crosstab_total n_def pairs_def)
  show ?thesis
    using assms(5-7) by (simp add: cat_on_cat_stats_def Let_def sh tot d)
qed

theorem cramers_v_formula_witness:
  "getitem example_survey ''group'' = Inr [Str ''A'', Str ''B'', Str ''C''] \<and>
   getitem example_survey ''outcome'' = Inr [Str ''yes'', Str ''no'', Str ''yes''] \<and>
   chi2_contingency example_lib
     (counts (crosstab [Str ''A'', Str ''B'', Str ''C''] [Str ''yes'', Str ''no'', Str ''yes'']))
     = Inr (3, 1 / 100, 2) \<and>
   cat_on_cat_stats example_lib example_survey ''group'' ''outcome'' =
     Inr (crosstab [Str ''A'', Str ''B'', Str ''C''] [Str ''yes'', Str ''no'', Str ''yes''],
          1, 1 / 100)"
proof -
  have c: "chi2_contingency example_lib
     (counts (crosstab [Str ''A'', Str ''B'', Str ''C''] [Str ''yes'', Str ''no'', Str ''yes'']))
     = Inr (3, 1 / 100, 2)"
    by (simp only: example_survey_crosstab crosstable.select_convs example_survey_chi2)
  have n: "length (observed_pairs [Str ''A'', Str ''B'', Str ''C''] [Str ''yes'', Str ''no'', Str ''yes'']) = 3"
    by (simp add: observed_pairs_def)
  have r: "card (fst ` set (observed_pairs [Str ''A'', Str ''B'', Str ''C''] [Str ''yes'', Str ''no'', Str ''yes''])) = 3"
    by (simp add: observed_pairs_def card_insert_if)
  have k: "card (snd ` set (observed_pairs [Str ''A'', Str ''B'', Str ''C''] [Str ''yes'', Str ''no'', Str ''yes''])) = 2"
    by (simp add: observed_pairs_def card_insert_if)
  show ?thesis
    using cramers_v_formula [OF example_survey_group example_survey_outcome c]
      example_survey_group example_survey_outcome c
    by (simp add: n r k example_lib_def)
qed
section \<open>The arithmetic of doubles\<close>

subsection \<open>Rounding\<close>

text \<open>
  The rounding of a positive number is fixed by the binade it lies in and by the whole
  number nearest to its quotient by the unit of that binade.
\<close>

lemma rne_near:
  assumes "of_int m - 1 / 2 < y" "y < of_int m + 1 / 2"
  shows "rne y = m"
proof -
  consider "of_int m \<le> y" | "y < of_int m" by linarith
  then show ?thesis
  proof cases
    case 1
    then have "\<lfloor>y\<rfloor> = m" using assms by (intro floor_unique) auto
    then show ?thesis using assms by (simp add: rne_def Let_def)
  next
    case 2
    then have f: "\<lfloor>y\<rfloor> = m - 1" using assms by (intro floor_unique) auto
    have "1 / 2 < y - of_int (m - 1)" using assms by simp
    then show ?thesis using f by (simp add: rne_def Let_def)
  qed
qed

lemma rne_tie_even:
  assumes "y = of_int m + 1 / 2" "even m"
  shows "rne y = m"
proof -
  have "\<lfloor>y\<rfloor> = m" using assms by (intro floor_unique) auto
  then show ?thesis using assms by (simp add: rne_def Let_def)
qed

lemma rne_tie_odd:
  assumes "y = of_int m + 1 / 2" "odd m"
  shows "rne y = m + 1"
proof -
  have "\<lfloor>y\<rfloor> = m" using assms by (intro floor_unique) auto
  then show ?thesis using assms by (simp add: rne_def Let_def)
qed

lemma floor_log2:
  assumes "0 < x" "2 powi e \<le> x" "x < 2 powi (e + 1)"
  shows "\<lfloor>log 2 x\<rfloor> = e"
proof -
  have "2 powr (of_int e) \<le> x \<and> x < 2 powr (of_int e + 1)"
    using assms powr_real_of_int'[of 2 e] powr_real_of_int'[of 2 "e + 1"] by simp
  then show ?thesis using assms(1) by (simp add: floor_log_eq_powr_iff)
qed

lemma round64_pos:
  assumes "0 < x" "2 powi e \<le> x" "x < 2 powi (e + 1)" "rne (x / 2 powi (e - 52)) = m"
  shows "round64 x = of_int m * 2 powi (e - 52)"
  using assms floor_log2[OF assms(1-3)] by (simp add: round64_def Let_def)

lemma round64_minus [simp]: "round64 (- x) = - round64 x"
  by (simp add: round64_def Let_def sgn_minus)

lemma round64_0 [simp]: "round64 0 = 0"
  by (simp add: round64_def)

text \<open>
  The rounding of a square root, from two bounds of the root that are half a unit away from
  the rounded value.
\<close>

lemma round64_sqrt:
  fixes lo x hi :: real and e m :: int
  assumes "0 < lo" "lo * lo < x" "x < hi * hi" "0 < hi"
    and "2 powi e \<le> lo" "hi \<le> 2 powi (e + 1)"
    and "lo = (of_int m - 1 / 2) * 2 powi (e - 52)"
    and "hi = (of_int m + 1 / 2) * 2 powi (e - 52)"
  shows "round64 (sqrt x) = of_int m * 2 powi (e - 52)"
proof -
  define u :: real where "u = 2 powi (e - 52)"
  have u: "0 < u" by (simp add: u_def)
  have l: "lo < sqrt x"
    using assms(1,2) by (intro real_less_rsqrt) (simp add: power2_eq_square)
  have h: "sqrt x < hi"
    using assms(3,4) by (intro real_less_lsqrt) (simp_all add: power2_eq_square)
  have pos: "0 < sqrt x" using l assms(1) by linarith
  have b1: "2 powi e \<le> sqrt x" using l assms(5) by linarith
  have b2: "sqrt x < 2 powi (e + 1)" using h assms(6) by linarith
  have "(of_int m - 1 / 2) * u < sqrt x" using l assms(7) by (simp add: u_def)
  then have n1: "of_int m - 1 / 2 < sqrt x / u" using u by (simp add: pos_less_divide_eq)
  have "sqrt x < (of_int m + 1 / 2) * u" using h assms(8) by (simp add: u_def)
  then have n2: "sqrt x / u < of_int m + 1 / 2" using u by (simp add: pos_divide_less_eq)
  have "rne (sqrt x / 2 powi (e - 52)) = m"
    using rne_near[OF n1 n2] by (simp add: u_def)
  from round64_pos[OF pos b1 b2 this] show ?thesis .
qed


lemma pairwise_sum_3:
  "pairwise_sum add [a0, a1, a2] = add (add (add 0 a0) a1) a2"
  by (simp add: pairwise_sum.simps)

lemma double_ops:
  "fl_add double_lib = (\<lambda>x y. round64 (x + y))"
  "fl_sub double_lib = (\<lambda>x y. round64 (x - y))"
  "fl_mul double_lib = (\<lambda>x y. round64 (x * y))"
  "fl_div double_lib = (\<lambda>x y. round64 (x / y))"
  "fl_sqrt double_lib = (\<lambda>x. round64 (sqrt x))"
  "fl_sum double_lib = np_sum (\<lambda>x y. round64 (x + y))"
  "chi2_sf double_lib = (\<lambda>chi2 dof. 1 / 100)"
  "ttest_ind double_lib = (\<lambda>g1 g2. (Some 0, Some (1 / 100)))"
  by (simp_all add: double_lib_def example_lib_def)

subsection \<open>The roundings of the examples\<close>

text \<open>
  Every rounding that the analyzers perform on the example tables, each with the exponent
  of its binade and its significand.
\<close>

lemma r64_1 [r64]: "round64 (3 / 20769187434139310514121985316880384) = 3 / 20769187434139310514121985316880384"
proof -
  have "rne (3 / 20769187434139310514121985316880384 / 2 powi (- 113 - 52)) = 6755399441055744"
    by (rule rne_near) (simp_all add: power_int_minus)
  from round64_pos[of "3 / 20769187434139310514121985316880384" "- 113", OF _ _ _ this] show ?thesis
    by (simp add: power_int_minus)
qed

lemma r64_2 [r64]: "round64 (1 / 5192296858534827628530496329220096) = 1 / 5192296858534827628530496329220096"
proof -
  have "rne (1 / 5192296858534827628530496329220096 / 2 powi (- 112 - 52)) = 4503599627370496"
    by (rule rne_near) (simp_all add: power_int_minus)
  from round64_pos[of "1 / 5192296858534827628530496329220096" "- 112", OF _ _ _ this] show ?thesis
    by (simp add: power_int_minus)
qed

lemma r64_3 [r64]: "round64 (3 / 10384593717069655257060992658440192) = 3 / 10384593717069655257060992658440192"
proof -
  have "rne (3 / 10384593717069655257060992658440192 / 2 powi (- 112 - 52)) = 6755399441055744"
    by (rule rne_near) (simp_all add: power_int_minus)
  from round64_pos[of "3 / 10384593717069655257060992658440192" "- 112", OF _ _ _ this] show ?thesis
    by (simp add: power_int_minus)
qed

lemma r64_4 [r64]: "round64 (1 / 2596148429267413814265248164610048) = 1 / 2596148429267413814265248164610048"
proof -
  have "rne (1 / 2596148429267413814265248164610048 / 2 powi (- 111 - 52)) = 4503599627370496"
    by (rule rne_near) (simp_all add: power_int_minus)
  from round64_pos[of "1 / 2596148429267413814265248164610048" "- 111", OF _ _ _ this] show ?thesis
    by (simp add: power_int_minus)
qed

lemma r64_5 [r64]: "round64 (3 / 5192296858534827628530496329220096) = 3 / 5192296858534827628530496329220096"
proof -
  have "rne (3 / 5192296858534827628530496329220096 / 2 powi (- 111 - 52)) = 6755399441055744"
    by (rule rne_near) (simp_all add: power_int_minus)
  from round64_pos[of "3 / 5192296858534827628530496329220096" "- 111", OF _ _ _ this] show ?thesis
    by (simp add: power_int_minus)
qed

lemma r64_6 [r64]: "round64 (1 / 72057594037927936) = 1 / 72057594037927936"
proof -
  have "rne (1 / 72057594037927936 / 2 powi (- 56 - 52)) = 4503599627370496"
    by (rule rne_near) (simp_all add: power_int_minus)
  from round64_pos[of "1 / 72057594037927936" "- 56", OF _ _ _ this] show ?thesis
    by (simp add: power_int_minus)
qed

lemma r64_7 [r64]: "round64 (12980742146337070512478121581609 / 324518553658426726783156020576256) = 1441151880758559 / 36028797018963968"
proof -
  have "rne (12980742146337070512478121581609 / 324518553658426726783156020576256 / 2 powi (- 5 - 52)) = 5764607523034236"
    by (rule rne_near) (simp_all add: power_int_minus)
  from round64_pos[of "12980742146337070512478121581609 / 324518553658426726783156020576256" "- 5", OF _ _ _ this] show ?thesis
    by (simp add: power_int_minus)
qed

lemma r64_8 [r64]: "round64 (3602879701896397 / 36028797018963968) = 3602879701896397 / 36028797018963968"
proof -
  have "rne (3602879701896397 / 36028797018963968 / 2 powi (- 4 - 52)) = 7205759403792794"
    by (rule rne_near) (simp_all add: power_int_minus)
  from round64_pos[of "3602879701896397 / 36028797018963968" "- 4", OF _ _ _ this] show ?thesis
    by (simp add: power_int_minus)
qed

lemma r64_9 [r64]: "round64 (1351079888211149 / 13510798882111488) = 7205759403792795 / 72057594037927936"
proof -
  have "rne (1351079888211149 / 13510798882111488 / 2 powi (- 4 - 52)) = 7205759403792795"
    by (rule rne_near) (simp_all add: power_int_minus)
  from round64_pos[of "1351079888211149 / 13510798882111488" "- 4", OF _ _ _ this] show ?thesis
    by (simp add: power_int_minus)
qed

lemma r64_10 [r64]: "round64 (14411518807585585 / 72057594037927936) = 900719925474099 / 4503599627370496"
proof -
  have "rne (14411518807585585 / 72057594037927936 / 2 powi (- 3 - 52)) = 7205759403792792"
    by (rule rne_tie_even) (simp_all add: power_int_minus)
  from round64_pos[of "14411518807585585 / 72057594037927936" "- 3", OF _ _ _ this] show ?thesis
    by (simp add: power_int_minus)
qed

lemma r64_11 [r64]: "round64 (1 / 5) = 3602879701896397 / 18014398509481984"
proof -
  have "rne (1 / 5 / 2 powi (- 3 - 52)) = 7205759403792794"
    by (rule rne_near) (simp_all add: power_int_minus)
  from round64_pos[of "1 / 5" "- 3", OF _ _ _ this] show ?thesis
    by (simp add: power_int_minus)
qed

lemma r64_12 [r64]: "round64 (3602879701896397 / 18014398509481984) = 3602879701896397 / 18014398509481984"
proof -
  have "rne (3602879701896397 / 18014398509481984 / 2 powi (- 3 - 52)) = 7205759403792794"
    by (rule rne_near) (simp_all add: power_int_minus)
  from round64_pos[of "3602879701896397 / 18014398509481984" "- 3", OF _ _ _ this] show ?thesis
    by (simp add: power_int_minus)
qed

lemma r64_13 [r64]: "round64 (1441151880758559 / 7205759403792794) = 7205759403792795 / 36028797018963968"
proof -
  have "rne (1441151880758559 / 7205759403792794 / 2 powi (- 3 - 52)) = 7205759403792795"
    by (rule rne_near) (simp_all add: power_int_minus)
  from round64_pos[of "1441151880758559 / 7205759403792794" "- 3", OF _ _ _ this] show ?thesis
    by (simp add: power_int_minus)
qed

lemma r64_14 [r64]: "round64 (2026619832316723 / 6755399441055744) = 5404319552844595 / 18014398509481984"
proof -
  have "rne (2026619832316723 / 6755399441055744 / 2 powi (- 2 - 52)) = 5404319552844595"
    by (rule rne_near) (simp_all add: power_int_minus)
  from round64_pos[of "2026619832316723 / 6755399441055744" "- 2", OF _ _ _ this] show ?thesis
    by (simp add: power_int_minus)
qed

lemma r64_15 [r64]: "round64 (5404319552844595 / 18014398509481984) = 5404319552844595 / 18014398509481984"
proof -
  have "rne (5404319552844595 / 18014398509481984 / 2 powi (- 2 - 52)) = 5404319552844595"
    by (rule rne_near) (simp_all add: power_int_minus)
  from round64_pos[of "5404319552844595 / 18014398509481984" "- 2", OF _ _ _ this] show ?thesis
    by (simp add: power_int_minus)
qed

lemma r64_16 [r64]: "round64 (10808639105689191 / 36028797018963968) = 1351079888211149 / 4503599627370496"
proof -
  have "rne (10808639105689191 / 36028797018963968 / 2 powi (- 2 - 52)) = 5404319552844596"
    using rne_tie_odd[of "10808639105689191 / 36028797018963968 / 2 powi (- 2 - 52)" 5404319552844595] by (simp add: power_int_minus)
  from round64_pos[of "10808639105689191 / 36028797018963968" "- 2", OF _ _ _ this] show ?thesis
    by (simp add: power_int_minus)
qed

lemma r64_17 [r64]: "round64 (1351079888211149 / 4503599627370496) = 1351079888211149 / 4503599627370496"
proof -
  have "rne (1351079888211149 / 4503599627370496 / 2 powi (- 2 - 52)) = 5404319552844596"
    by (rule rne_near) (simp_all add: power_int_minus)
  from round64_pos[of "1351079888211149 / 4503599627370496" "- 2", OF _ _ _ this] show ?thesis
    by (simp add: power_int_minus)
qed

lemma r64_18 [r64]: "round64 (29206669829258403248756220714025 / 81129638414606681695789005144064) = 3242591731706757 / 9007199254740992"
proof -
  have "rne (29206669829258403248756220714025 / 81129638414606681695789005144064 / 2 powi (- 2 - 52)) = 6485183463413514"
    by (rule rne_near) (simp_all add: power_int_minus)
  from round64_pos[of "29206669829258403248756220714025 / 81129638414606681695789005144064" "- 2", OF _ _ _ this] show ?thesis
    by (simp add: power_int_minus)
qed

lemma r64_19 [r64]: "round64 (5404319552844595 / 9007199254740992) = 5404319552844595 / 9007199254740992"
proof -
  have "rne (5404319552844595 / 9007199254740992 / 2 powi (- 1 - 52)) = 5404319552844595"
    by (rule rne_near) (simp_all add: power_int_minus)
  from round64_pos[of "5404319552844595 / 9007199254740992" "- 1", OF _ _ _ this] show ?thesis
    by (simp add: power_int_minus)
qed

lemma r64_20 [r64]: "round64 (3 / 5) = 5404319552844595 / 9007199254740992"
proof -
  have "rne (3 / 5 / 2 powi (- 1 - 52)) = 5404319552844595"
    by (rule rne_near) (simp_all add: power_int_minus)
  from round64_pos[of "3 / 5" "- 1", OF _ _ _ this] show ?thesis
    by (simp add: power_int_minus)
qed

lemma r64_21 [r64]: "round64 (12980742146337070512478121581609 / 20282409603651670423947251286016) = 1441151880758559 / 2251799813685248"
proof -
  have "rne (12980742146337070512478121581609 / 20282409603651670423947251286016 / 2 powi (- 1 - 52)) = 5764607523034236"
    by (rule rne_near) (simp_all add: power_int_minus)
  from round64_pos[of "12980742146337070512478121581609 / 20282409603651670423947251286016" "- 1", OF _ _ _ this] show ?thesis
    by (simp add: power_int_minus)
qed

lemma r64_22 [r64]: "round64 (6485183463413514 / 8106479329266893) = 7205759403792793 / 9007199254740992"
proof -
  have "rne (6485183463413514 / 8106479329266893 / 2 powi (- 1 - 52)) = 7205759403792793"
    by (rule rne_near) (simp_all add: power_int_minus)
  from round64_pos[of "6485183463413514 / 8106479329266893" "- 1", OF _ _ _ this] show ?thesis
    by (simp add: power_int_minus)
qed

lemma r64_23 [r64]: "round64 (14411518807585587 / 18014398509481984) = 3602879701896397 / 4503599627370496"
proof -
  have "rne (14411518807585587 / 18014398509481984 / 2 powi (- 1 - 52)) = 7205759403792794"
    using rne_tie_odd[of "14411518807585587 / 18014398509481984 / 2 powi (- 1 - 52)" 7205759403792793] by (simp add: power_int_minus)
  from round64_pos[of "14411518807585587 / 18014398509481984" "- 1", OF _ _ _ this] show ?thesis
    by (simp add: power_int_minus)
qed

lemma r64_24 [r64]: "round64 (28823037615171175 / 36028797018963968) = 3602879701896397 / 4503599627370496"
proof -
  have "rne (28823037615171175 / 36028797018963968 / 2 powi (- 1 - 52)) = 7205759403792794"
    by (rule rne_near) (simp_all add: power_int_minus)
  from round64_pos[of "28823037615171175 / 36028797018963968" "- 1", OF _ _ _ this] show ?thesis
    by (simp add: power_int_minus)
qed

lemma r64_25 [r64]: "round64 (2026619832316723 / 2251799813685248) = 2026619832316723 / 2251799813685248"
proof -
  have "rne (2026619832316723 / 2251799813685248 / 2 powi (- 1 - 52)) = 8106479329266892"
    by (rule rne_near) (simp_all add: power_int_minus)
  from round64_pos[of "2026619832316723 / 2251799813685248" "- 1", OF _ _ _ this] show ?thesis
    by (simp add: power_int_minus)
qed

lemma r64_26 [r64]: "round64 (16212958658533785 / 18014398509481984) = 2026619832316723 / 2251799813685248"
proof -
  have "rne (16212958658533785 / 18014398509481984 / 2 powi (- 1 - 52)) = 8106479329266892"
    by (rule rne_tie_even) (simp_all add: power_int_minus)
  from round64_pos[of "16212958658533785 / 18014398509481984" "- 1", OF _ _ _ this] show ?thesis
    by (simp add: power_int_minus)
qed

lemma r64_27 [r64]: "round64 (1) = 1"
proof -
  have "rne (1 / 2 powi (0 - 52)) = 4503599627370496"
    by (rule rne_near) (simp_all add: power_int_minus)
  from round64_pos[of "1" "0", OF _ _ _ this] show ?thesis
    by (simp add: power_int_minus)
qed

lemma r64_28 [r64]: "round64 (2251799813685249 / 2251799813685248) = 2251799813685249 / 2251799813685248"
proof -
  have "rne (2251799813685249 / 2251799813685248 / 2 powi (0 - 52)) = 4503599627370498"
    by (rule rne_near) (simp_all add: power_int_minus)
  from round64_pos[of "2251799813685249 / 2251799813685248" "0", OF _ _ _ this] show ?thesis
    by (simp add: power_int_minus)
qed

lemma r64_29 [r64]: "round64 (5404319552844595 / 4503599627370496) = 5404319552844595 / 4503599627370496"
proof -
  have "rne (5404319552844595 / 4503599627370496 / 2 powi (0 - 52)) = 5404319552844595"
    by (rule rne_near) (simp_all add: power_int_minus)
  from round64_pos[of "5404319552844595 / 4503599627370496" "0", OF _ _ _ this] show ?thesis
    by (simp add: power_int_minus)
qed

lemma r64_30 [r64]: "round64 (29206669829258403248756220714025 / 20282409603651670423947251286016) = 3242591731706757 / 2251799813685248"
proof -
  have "rne (29206669829258403248756220714025 / 20282409603651670423947251286016 / 2 powi (0 - 52)) = 6485183463413514"
    by (rule rne_near) (simp_all add: power_int_minus)
  from round64_pos[of "29206669829258403248756220714025 / 20282409603651670423947251286016" "0", OF _ _ _ this] show ?thesis
    by (simp add: power_int_minus)
qed

lemma r64_31 [r64]: "round64 (9 / 5) = 8106479329266893 / 4503599627370496"
proof -
  have "rne (9 / 5 / 2 powi (0 - 52)) = 8106479329266893"
    by (rule rne_near) (simp_all add: power_int_minus)
  from round64_pos[of "9 / 5" "0", OF _ _ _ this] show ?thesis
    by (simp add: power_int_minus)
qed

lemma r64_32 [r64]: "round64 (2) = 2"
proof -
  have "rne (2 / 2 powi (1 - 52)) = 4503599627370496"
    by (rule rne_near) (simp_all add: power_int_minus)
  from round64_pos[of "2" "1", OF _ _ _ this] show ?thesis
    by (simp add: power_int_minus)
qed

lemma r64_33 [r64]: "round64 (2814749767106561 / 1407374883553280) = 2251799813685249 / 1125899906842624"
proof -
  have "rne (2814749767106561 / 1407374883553280 / 2 powi (1 - 52)) = 4503599627370498"
    by (rule rne_near) (simp_all add: power_int_minus)
  from round64_pos[of "2814749767106561 / 1407374883553280" "1", OF _ _ _ this] show ?thesis
    by (simp add: power_int_minus)
qed

lemma r64_34 [r64]: "round64 (3) = 3"
proof -
  have "rne (3 / 2 powi (1 - 52)) = 6755399441055744"
    by (rule rne_near) (simp_all add: power_int_minus)
  from round64_pos[of "3" "1", OF _ _ _ this] show ?thesis
    by (simp add: power_int_minus)
qed

lemma r64_35 [r64]: "round64 (11529215046068472 / 3602879701896397) = 7205759403792795 / 2251799813685248"
proof -
  have "rne (11529215046068472 / 3602879701896397 / 2 powi (1 - 52)) = 7205759403792795"
    by (rule rne_near) (simp_all add: power_int_minus)
  from round64_pos[of "11529215046068472 / 3602879701896397" "1", OF _ _ _ this] show ?thesis
    by (simp add: power_int_minus)
qed

lemma r64_36 [r64]: "round64 (122497909864477515 / 36028797018963968) = 7656119366529845 / 2251799813685248"
proof -
  have "rne (122497909864477515 / 36028797018963968 / 2 powi (1 - 52)) = 7656119366529845"
    by (rule rne_near) (simp_all add: power_int_minus)
  from round64_pos[of "122497909864477515 / 36028797018963968" "1", OF _ _ _ this] show ?thesis
    by (simp add: power_int_minus)
qed

lemma r64_37 [r64]: "round64 (34227357168015775 / 9007199254740992) = 1069604911500493 / 281474976710656"
proof -
  have "rne (34227357168015775 / 9007199254740992 / 2 powi (1 - 52)) = 8556839292003944"
    by (rule rne_near) (simp_all add: power_int_minus)
  from round64_pos[of "34227357168015775 / 9007199254740992" "1", OF _ _ _ this] show ?thesis
    by (simp add: power_int_minus)
qed

lemma r64_38 [r64]: "round64 (4) = 4"
proof -
  have "rne (4 / 2 powi (2 - 52)) = 4503599627370496"
    by (rule rne_near) (simp_all add: power_int_minus)
  from round64_pos[of "4" "2", OF _ _ _ this] show ?thesis
    by (simp add: power_int_minus)
qed

lemma r64_39 [r64]: "round64 (18915118434956087 / 4503599627370496) = 2364389804369511 / 562949953421312"
proof -
  have "rne (18915118434956087 / 4503599627370496 / 2 powi (2 - 52)) = 4728779608739022"
    by (rule rne_near) (simp_all add: power_int_minus)
  from round64_pos[of "18915118434956087 / 4503599627370496" "2", OF _ _ _ this] show ?thesis
    by (simp add: power_int_minus)
qed

lemma r64_40 [r64]: "round64 (5) = 5"
proof -
  have "rne (5 / 2 powi (2 - 52)) = 5629499534213120"
    by (rule rne_near) (simp_all add: power_int_minus)
  from round64_pos[of "5" "2", OF _ _ _ this] show ?thesis
    by (simp add: power_int_minus)
qed

lemma r64_41 [r64]: "round64 (22517998136852483 / 4503599627370496) = 5629499534213121 / 1125899906842624"
proof -
  have "rne (22517998136852483 / 4503599627370496 / 2 powi (2 - 52)) = 5629499534213121"
    by (rule rne_near) (simp_all add: power_int_minus)
  from round64_pos[of "22517998136852483 / 4503599627370496" "2", OF _ _ _ this] show ?thesis
    by (simp add: power_int_minus)
qed

lemma r64_42 [r64]: "round64 (6) = 6"
proof -
  have "rne (6 / 2 powi (2 - 52)) = 6755399441055744"
    by (rule rne_near) (simp_all add: power_int_minus)
  from round64_pos[of "6" "2", OF _ _ _ this] show ?thesis
    by (simp add: power_int_minus)
qed

lemma r64_43 [r64]: "round64 (8) = 8"
proof -
  have "rne (8 / 2 powi (3 - 52)) = 4503599627370496"
    by (rule rne_near) (simp_all add: power_int_minus)
  from round64_pos[of "8" "3", OF _ _ _ this] show ?thesis
    by (simp add: power_int_minus)
qed

lemma r64_44 [r64]: "round64 (9) = 9"
proof -
  have "rne (9 / 2 powi (3 - 52)) = 5066549580791808"
    by (rule rne_near) (simp_all add: power_int_minus)
  from round64_pos[of "9" "3", OF _ _ _ this] show ?thesis
    by (simp add: power_int_minus)
qed

lemma r64_45 [r64]: "round64 (10358279142952143 / 1125899906842624) = 647392446434509 / 70368744177664"
proof -
  have "rne (10358279142952143 / 1125899906842624 / 2 powi (3 - 52)) = 5179139571476072"
    using rne_tie_odd[of "10358279142952143 / 1125899906842624 / 2 powi (3 - 52)" 5179139571476071] by (simp add: power_int_minus)
  from round64_pos[of "10358279142952143 / 1125899906842624" "3", OF _ _ _ this] show ?thesis
    by (simp add: power_int_minus)
qed

lemma r64_46 [r64]: "round64 (10) = 10"
proof -
  have "rne (10 / 2 powi (3 - 52)) = 5629499534213120"
    by (rule rne_near) (simp_all add: power_int_minus)
  from round64_pos[of "10" "3", OF _ _ _ this] show ?thesis
    by (simp add: power_int_minus)
qed

lemma r64_47 [r64]: "round64 (90071992547409945 / 9007199254740992) = 2814749767106561 / 281474976710656"
proof -
  have "rne (90071992547409945 / 9007199254740992 / 2 powi (3 - 52)) = 5629499534213122"
    by (rule rne_near) (simp_all add: power_int_minus)
  from round64_pos[of "90071992547409945 / 9007199254740992" "3", OF _ _ _ this] show ?thesis
    by (simp add: power_int_minus)
qed

lemma r64_48 [r64]: "round64 (2814749767106561 / 281474976710656) = 2814749767106561 / 281474976710656"
proof -
  have "rne (2814749767106561 / 281474976710656 / 2 powi (3 - 52)) = 5629499534213122"
    by (rule rne_near) (simp_all add: power_int_minus)
  from round64_pos[of "2814749767106561 / 281474976710656" "3", OF _ _ _ this] show ?thesis
    by (simp add: power_int_minus)
qed

lemma r64_49 [r64]: "round64 (12) = 12"
proof -
  have "rne (12 / 2 powi (3 - 52)) = 6755399441055744"
    by (rule rne_near) (simp_all add: power_int_minus)
  from round64_pos[of "12" "3", OF _ _ _ this] show ?thesis
    by (simp add: power_int_minus)
qed

lemma r64_50 [r64]: "round64 (22) = 22"
proof -
  have "rne (22 / 2 powi (4 - 52)) = 6192449487634432"
    by (rule rne_near) (simp_all add: power_int_minus)
  from round64_pos[of "22" "4", OF _ _ _ this] show ?thesis
    by (simp add: power_int_minus)
qed

lemma r64_51 [r64]: "round64 (36) = 36"
proof -
  have "rne (36 / 2 powi (5 - 52)) = 5066549580791808"
    by (rule rne_near) (simp_all add: power_int_minus)
  from round64_pos[of "36" "5", OF _ _ _ this] show ?thesis
    by (simp add: power_int_minus)
qed

lemma r64_52 [r64]: "round64 (21634570243895110315037465509888 / 1300077228592327) = 16640988525981784"
proof -
  have "rne (21634570243895110315037465509888 / 1300077228592327 / 2 powi (53 - 52)) = 8320494262990892"
    by (rule rne_near) (simp_all add: power_int_minus)
  from round64_pos[of "21634570243895110315037465509888 / 1300077228592327" "53", OF _ _ _ this] show ?thesis
    by (simp add: power_int_minus)
qed

lemma r64_sqrt_1 [r64]: "round64 (sqrt (3 / 20769187434139310514121985316880384)) = 3900231685776981 / 324518553658426726783156020576256"
proof -
  have eq: "of_int 7800463371553962 * 2 powi (- 57 - 52) = (3900231685776981 / 324518553658426726783156020576256 :: real)"
    by (simp add: power_int_minus)
  have "round64 (sqrt (3 / 20769187434139310514121985316880384)) = of_int 7800463371553962 * 2 powi (- 57 - 52)"
    by (rule round64_sqrt[of "15600926743107923 / 1298074214633706907132624082305024" _ "15600926743107925 / 1298074214633706907132624082305024"]) (simp_all add: power_int_minus)
  then show ?thesis unfolding eq .
qed

lemma r64_sqrt_2 [r64]: "round64 (sqrt (2251799813685249 / 2251799813685248)) = 4503599627370497 / 4503599627370496"
proof -
  have eq: "of_int 4503599627370497 * 2 powi (0 - 52) = (4503599627370497 / 4503599627370496 :: real)"
    by (simp add: power_int_minus)
  have "round64 (sqrt (2251799813685249 / 2251799813685248)) = of_int 4503599627370497 * 2 powi (0 - 52)"
    by (rule round64_sqrt[of "9007199254740993 / 9007199254740992" _ "9007199254740995 / 9007199254740992"]) (simp_all add: power_int_minus)
  then show ?thesis unfolding eq .
qed

subsection \<open>The diagonal table in doubles\<close>








section \<open>The output policy\<close>

lemma lower_names:
  "lower name_cramer = key_cramer" "lower name_cohen = key_cohen"
  "lower name_eta = key_eta" "lower name_pearson = key_pearson"
  by (simp_all add: lower_def lower_char_def name_cramer_def name_cohen_def name_eta_def
      name_pearson_def key_cramer_def key_cohen_def key_eta_def key_pearson_def)

lemma interpretations_metric:
  "\<exists>bands. interpretations (lower (metric_name m)) = Some bands"
  by (cases m) (simp_all add: metric_name_def lower_names interpretations_def)

lemma interpret_metric:
  "\<exists>i. interpret_effect_size v (metric_name m) = Inr i \<and> (v \<noteq> None \<longrightarrow> i \<noteq> None)"
proof -
  obtain bands where b: "interpretations (lower (metric_name m)) = Some bands"
    using interpretations_metric by blast
  have "v \<noteq> None \<longrightarrow> scan_bands v bands \<noteq> None"
    using scan_bands_total[OF b] by auto
  then show ?thesis using b by (simp add: interpret_effect_size_def)
qed



lemma cat_on_cat_output:
  assumes a: "cat_on_cat_stats l (deref st df) col1 col2 = Inr (ct, v, p)"
    and b: "interpret_effect_size (Some v) name_cramer = Inr i"
  shows "fst (cat_on_cat_effect_size l st df col1 col2 alpha) =
           Inr (if p \<le> alpha then Effect Cramers_V (Some v) i (Some p)
                else Not_significant (Some p) alpha, ct)"
  using a b by (simp add: cat_on_cat_effect_size_def)

lemma cat_on_num_output:
  assumes a: "clean_cat_num l st df col1 col2 = (Inr df2, st2)"
    and a2: "cat_on_num_stats l (deref st2 df2) col1 col2 = Inr (m, d, q)"
    and b: "interpret_effect_size d (metric_name m) = Inr i"
  shows "fst (cat_on_num_effect_size l st df col1 col2 alpha) =
           Inr (if le_float q alpha then Effect m d i q
                else Not_significant q alpha, df2)"
  using a a2 b by (simp add: cat_on_num_effect_size_def)

lemma correlation_output:
  assumes a: "clean_num_num l st df col1 col2 = (Inr df3, st3)"
    and a2: "correlation_stats l (deref st3 df3) col1 col2 = Inr (r, q)"
    and b: "interpret_effect_size r name_pearson = Inr i"
  shows "fst (correlation_effect_size l st df col1 col2 alpha) =
           Inr (if le_float q alpha then Effect Pearsons_r r i q
                else Not_significant q alpha, df3)"
  using a a2 b by (simp add: correlation_effect_size_def)

lemma interpret_cramer:
  "\<exists>label. interpret_effect_size (Some v) name_cramer = Inr (Some label)"
  using interpret_metric[of "Some v" Cramers_V] by (auto simp: metric_name_def)

lemma interpret_pearson:
  "\<exists>i. interpret_effect_size r name_pearson = Inr i \<and> (r \<noteq> None \<longrightarrow> i \<noteq> None)"
  using interpret_metric[of r Pearsons_r] by (simp add: metric_name_def)


lemma output_cat_on_cat: "\<exists>label. interpret_effect_size (Some v) name_cramer = Inr (Some label) \<and>
         fst (cat_on_cat_effect_size l st df col1 col2 alpha) =
           Inr (if p \<le> alpha then Effect Cramers_V (Some v) (Some label) (Some p)
                else Not_significant (Some p) alpha, ct)"
    if a: "cat_on_cat_stats l (deref st df) col1 col2 = Inr (ct, v, p)"
proof -
  from interpret_cramer[of v] obtain label
    where b: "interpret_effect_size (Some v) name_cramer = Inr (Some label)" ..
  from cat_on_cat_output[OF a b, of alpha] b show ?thesis
    by (intro exI[of _ label] conjI)
qed

lemma output_cat_on_num: "\<exists>interpretation. interpret_effect_size d (metric_name m) = Inr interpretation \<and>
         (d \<noteq> None \<longrightarrow> interpretation \<noteq> None) \<and>
         fst (cat_on_num_effect_size l st df col1 col2 alpha) =
           Inr (if le_float q alpha then Effect m d interpretation q
                else Not_significant q alpha, df2)"
    if a: "clean_cat_num l st df col1 col2 = (Inr df2, st2)"
      and a2: "cat_on_num_stats l (deref st2 df2) col1 col2 = Inr (m, d, q)"
proof -
  from interpret_metric[of d m] obtain i
    where bc: "interpret_effect_size d (metric_name m) = Inr i \<and> (d \<noteq> None \<longrightarrow> i \<noteq> None)" ..
  then have b: "interpret_effect_size d (metric_name m) = Inr i" ..
  from bc have c: "d \<noteq> None \<longrightarrow> i \<noteq> None" ..
  note e = cat_on_num_output[OF a a2 b, of alpha]
  show ?thesis
    apply (rule exI[of _ i])
    apply (rule conjI[OF b])
    apply (rule conjI[OF c])
    apply (rule e)
    done
qed

lemma output_correlation: "\<exists>interpretation. interpret_effect_size r name_pearson = Inr interpretation \<and>
         (r \<noteq> None \<longrightarrow> interpretation \<noteq> None) \<and>
         fst (correlation_effect_size l st df col1 col2 alpha) =
           Inr (if le_float q' alpha then Effect Pearsons_r r interpretation q'
                else Not_significant q' alpha, df3)"
    if a: "clean_num_num l st df col1 col2 = (Inr df3, st3)"
      and a2: "correlation_stats l (deref st3 df3) col1 col2 = Inr (r, q')"
proof -
  from interpret_pearson[of r] obtain i
    where bc: "interpret_effect_size r name_pearson = Inr i \<and> (r \<noteq> None \<longrightarrow> i \<noteq> None)" ..
  then have b: "interpret_effect_size r name_pearson = Inr i" ..
  from bc have c: "r \<noteq> None \<longrightarrow> i \<noteq> None" ..
  note e = correlation_output[OF a a2 b, of alpha]
  show ?thesis
    apply (rule exI[of _ i])
    apply (rule conjI[OF b])
    apply (rule conjI[OF c])
    apply (rule e)
    done
qed

subsection \<open>The analyzers on the example data\<close>

lemma example_scores_clean:
  "clean_cat_num example_lib [example_scores] 0 ''group'' ''score'' =
     (Inr 2, [example_scores, example_scores, example_scores])"
  by (simp add: clean_cat_num_def copy_def alloc_def deref_def assign_column_def setitem_def
      getitem_def to_numeric_def dropna_def row_complete_def take_rows_def nrows_def
      example_scores_def example_lib_def Let_def upt_rec nth_Cons')

lemma example_measures_clean:
  "clean_num_num example_lib [example_measures] 0 ''x'' ''y'' =
     (Inr 2, [example_measures,
              [(''x'', [Num 1, Num 2, Num 3]), (''y'', [Num 2, NA, Num 6])],
              [(''x'', [Num 1, Num 3]), (''y'', [Num 2, Num 6])]])"
  by (simp add: clean_num_num_def copy_def alloc_def deref_def assign_column_def setitem_def
      getitem_def to_numeric_def dropna_def row_complete_def take_rows_def nrows_def
      example_measures_def example_lib_def Let_def upt_rec nth_Cons')


lemma sqrt_4: "sqrt 4 = 2"
  using real_sqrt_abs[of 2] by simp

lemma example_scores_stats:
  "cat_on_num_stats example_lib example_scores ''group'' ''score'' =
     Inr (Cohens_d, Some (- 5), Some (1 / 100))"
  by (simp add: cat_on_num_stats_def getitem_def nunique_def group_def pooled_std_def
      var_def mean_def lift2_def example_scores_def example_lib_def Let_def
      power2_eq_square sqrt_4)

lemma example_scores_swapped_stats:
  "cat_on_num_stats example_lib example_scores_swapped ''group'' ''score'' =
     Inr (Cohens_d, Some 5, Some (1 / 100))"
  by (simp add: cat_on_num_stats_def getitem_def nunique_def group_def pooled_std_def
      var_def mean_def lift2_def example_scores_swapped_def example_lib_def Let_def
      power2_eq_square sqrt_4)

lemma example_measures_stats:
  "correlation_stats example_lib [(''x'', [Num 1, Num 3]), (''y'', [Num 2, Num 6])] ''x'' ''y'' =
     Inr (Some 1, Some (1 / 100))"
  by (simp add: correlation_stats_def getitem_def nrows_def example_lib_def)

lemma example_scores_swapped_clean:
  "clean_cat_num example_lib [example_scores_swapped] 0 ''group'' ''score'' =
     (Inr 2, [example_scores_swapped, example_scores_swapped, example_scores_swapped])"
  by (simp add: clean_cat_num_def copy_def alloc_def deref_def assign_column_def setitem_def
      getitem_def to_numeric_def dropna_def row_complete_def take_rows_def nrows_def
      example_scores_swapped_def example_lib_def Let_def upt_rec nth_Cons')

lemma example_survey_stats:
  "cat_on_cat_stats example_lib example_survey ''group'' ''outcome'' =
     Inr (\<lparr> index = [Str ''A'', Str ''B'', Str ''C''], columns = [Str ''yes'', Str ''no''],
            counts = [[1, 0], [0, 1], [1, 0]] \<rparr>, 1, 1 / 100)"
  by (simp add: cat_on_cat_stats_def getitem_def example_survey_def crosstab_def
      observed_pairs_def Let_def chi2_contingency_def shape_def expected_freq_def col_sums_def
      total_def pearson_terms_def pearson_term_def example_lib_def power2_eq_square denom_def)

lemma example_scores_group:
  "getitem example_scores ''group'' =
     Inr [Str ''A'', Str ''A'', Str ''A'', Str ''B'', Str ''B'', Str ''B'']"
  by (simp add: getitem_def example_scores_def)

lemma example_scores_score:
  "getitem example_scores ''score'' = Inr [Num 0, Num 2, Num 4, Num 10, Num 12, Num 14]"
  by (simp add: getitem_def example_scores_def)

lemma example_scores_nunique:
  "nunique [Str ''A'', Str ''A'', Str ''A'', Str ''B'', Str ''B'', Str ''B''] = 2"
  by (simp add: nunique_def)

lemma interpret_examples:
  "interpret_effect_size (Some 1) name_cramer = Inr (Some ''very large effect size'')"
  "interpret_effect_size (Some (- 5)) (metric_name Cohens_d) = Inr (Some ''very large effect size'')"
  "interpret_effect_size (Some 5) (metric_name Cohens_d) = Inr (Some ''very large effect size'')"
  "interpret_effect_size (Some 1) name_pearson = Inr (Some ''perfect correlation'')"
  by (simp_all add: interpret_effect_size_def metric_name_def lower_names interpretations_def
      keys_distinct keys_distinct[symmetric] scan_bands_cramer scan_bands_cohen
      scan_bands_pearson)

lemma deref_examples:
  "deref [a] 0 = a" "deref [a, b, c] 2 = c"
  by (simp_all add: deref_def)

text \<open>
  Claim C1. In each analyzer the text of the result is decided by the p-value alone: at
  \<open>p_value \<le> alpha\<close> (the boundary included) it carries the effect size, its interpretation
  and the p-value, otherwise it carries the p-value and alpha and nothing else. A p-value
  that is NaN is not below any alpha.
\<close>
theorem output_policy:
  "(cat_on_cat_stats l (deref st df) col1 col2 = Inr (ct, v, p) \<longrightarrow>
      (\<exists>label. interpret_effect_size (Some v) name_cramer = Inr (Some label) \<and>
         fst (cat_on_cat_effect_size l st df col1 col2 alpha) =
           Inr (if p \<le> alpha then Effect Cramers_V (Some v) (Some label) (Some p)
                else Not_significant (Some p) alpha, ct))) \<and>
   (clean_cat_num l st df col1 col2 = (Inr df2, st2) \<and>
    cat_on_num_stats l (deref st2 df2) col1 col2 = Inr (m, d, q) \<longrightarrow>
      (\<exists>interpretation. interpret_effect_size d (metric_name m) = Inr interpretation \<and>
         (d \<noteq> None \<longrightarrow> interpretation \<noteq> None) \<and>
         fst (cat_on_num_effect_size l st df col1 col2 alpha) =
           Inr (if le_float q alpha then Effect m d interpretation q
                else Not_significant q alpha, df2))) \<and>
   (clean_num_num l st df col1 col2 = (Inr df3, st3) \<and>
    correlation_stats l (deref st3 df3) col1 col2 = Inr (r, q') \<longrightarrow>
      (\<exists>interpretation. interpret_effect_size r name_pearson = Inr interpretation \<and>
         (r \<noteq> None \<longrightarrow> interpretation \<noteq> None) \<and>
         fst (correlation_effect_size l st df col1 col2 alpha) =
           Inr (if le_float q' alpha then Effect Pearsons_r r interpretation q'
                else Not_significant q' alpha, df3)))"
  apply (rule conjI)
   apply (rule impI)
   apply (erule output_cat_on_cat)
  apply (rule conjI)
   apply (rule impI)
   apply (erule conjE)
   apply (erule (1) output_cat_on_num)
  apply (rule impI)
  apply (erule conjE)
  apply (erule (1) output_correlation)
  done

theorem output_policy_witness:
  "cat_on_cat_stats example_lib (deref [example_survey] 0) ''group'' ''outcome'' =
     Inr (\<lparr> index = [Str ''A'', Str ''B'', Str ''C''], columns = [Str ''yes'', Str ''no''],
            counts = [[1, 0], [0, 1], [1, 0]] \<rparr>, 1, 1 / 100) \<and>
   fst (cat_on_cat_effect_size example_lib [example_survey] 0 ''group'' ''outcome'' (5 / 100)) =
     Inr (Effect Cramers_V (Some 1) (Some ''very large effect size'') (Some (1 / 100)),
          \<lparr> index = [Str ''A'', Str ''B'', Str ''C''], columns = [Str ''yes'', Str ''no''],
            counts = [[1, 0], [0, 1], [1, 0]] \<rparr>) \<and>
   clean_cat_num example_lib [example_scores] 0 ''group'' ''score'' =
     (Inr 2, [example_scores, example_scores, example_scores]) \<and>
   cat_on_num_stats example_lib (deref [example_scores, example_scores, example_scores] 2)
       ''group'' ''score'' = Inr (Cohens_d, Some (- 5), Some (1 / 100)) \<and>
   fst (cat_on_num_effect_size example_lib [example_scores] 0 ''group'' ''score'' (1 / 1000)) =
     Inr (Not_significant (Some (1 / 100)) (1 / 1000), 2) \<and>
   clean_num_num example_lib [example_measures] 0 ''x'' ''y'' =
     (Inr 2, [example_measures,
              [(''x'', [Num 1, Num 2, Num 3]), (''y'', [Num 2, NA, Num 6])],
              [(''x'', [Num 1, Num 3]), (''y'', [Num 2, Num 6])]]) \<and>
   correlation_stats example_lib
       (deref [example_measures,
              [(''x'', [Num 1, Num 2, Num 3]), (''y'', [Num 2, NA, Num 6])],
              [(''x'', [Num 1, Num 3]), (''y'', [Num 2, Num 6])]] 2) ''x'' ''y'' =
     Inr (Some 1, Some (1 / 100)) \<and>
   fst (correlation_effect_size example_lib [example_measures] 0 ''x'' ''y'' (1 / 100)) =
     Inr (Effect Pearsons_r (Some 1) (Some ''perfect correlation'') (Some (1 / 100)), 2)"
proof -
  have s1: "cat_on_cat_stats example_lib (deref [example_survey] 0) ''group'' ''outcome'' =
     Inr (\<lparr> index = [Str ''A'', Str ''B'', Str ''C''], columns = [Str ''yes'', Str ''no''],
            counts = [[1, 0], [0, 1], [1, 0]] \<rparr>, 1, 1 / 100)"
    unfolding deref_examples by (rule example_survey_stats)
  have s2: "clean_cat_num example_lib [example_scores] 0 ''group'' ''score'' =
       (Inr 2, [example_scores, example_scores, example_scores]) \<and>
     cat_on_num_stats example_lib (deref [example_scores, example_scores, example_scores] 2)
       ''group'' ''score'' = Inr (Cohens_d, Some (- 5), Some (1 / 100))"
    unfolding deref_examples using example_scores_clean example_scores_stats by (rule conjI)
  have s3: "clean_num_num example_lib [example_measures] 0 ''x'' ''y'' =
     (Inr 2, [example_measures,
              [(''x'', [Num 1, Num 2, Num 3]), (''y'', [Num 2, NA, Num 6])],
              [(''x'', [Num 1, Num 3]), (''y'', [Num 2, Num 6])]]) \<and>
     correlation_stats example_lib
       (deref [example_measures,
              [(''x'', [Num 1, Num 2, Num 3]), (''y'', [Num 2, NA, Num 6])],
              [(''x'', [Num 1, Num 3]), (''y'', [Num 2, Num 6])]] 2) ''x'' ''y'' =
     Inr (Some 1, Some (1 / 100))"
    unfolding deref_examples using example_measures_clean example_measures_stats by (rule conjI)
  note r1 = output_policy [THEN conjunct1, THEN mp, OF s1, of "5 / 100"]
  note r2 = output_policy [THEN conjunct2, THEN conjunct1, THEN mp, OF s2, of "1 / 1000"]
  note r3 = output_policy [THEN conjunct2, THEN conjunct2, THEN mp, OF s3, of "1 / 100"]
  have c1: "fst (cat_on_cat_effect_size example_lib [example_survey] 0 ''group'' ''outcome'' (5 / 100)) =
     Inr (Effect Cramers_V (Some 1) (Some ''very large effect size'') (Some (1 / 100)),
          \<lparr> index = [Str ''A'', Str ''B'', Str ''C''], columns = [Str ''yes'', Str ''no''],
            counts = [[1, 0], [0, 1], [1, 0]] \<rparr>)"
    using r1 by (elim exE conjE) (simp add: interpret_examples)
  have c2: "fst (cat_on_num_effect_size example_lib [example_scores] 0 ''group'' ''score'' (1 / 1000)) =
     Inr (Not_significant (Some (1 / 100)) (1 / 1000), 2)"
    using r2 by (elim exE conjE) simp
  have c3: "fst (correlation_effect_size example_lib [example_measures] 0 ''x'' ''y'' (1 / 100)) =
     Inr (Effect Pearsons_r (Some 1) (Some ''perfect correlation'') (Some (1 / 100)), 2)"
    using r3 by (elim exE conjE) (simp add: interpret_examples)
  show ?thesis
    by (intro conjI s1 c1 s2[THEN conjunct1] s2[THEN conjunct2] c2 s3[THEN conjunct1]
        s3[THEN conjunct2] c3)
qed

section \<open>Two groups: Cohen's d\<close>





lemma cat_on_num_stats_two:
  assumes c: "getitem df cat_col = Inr cat" and n: "getitem df num_col = Inr num"
    and two: "nunique cat = 2"
  shows "cat_on_num_stats l df cat_col num_col =
           (if pooled_std l (group cat num (unique cat ! 0)) (group cat num (unique cat ! 1))
                 = Some 0
            then Inl (ValueError zero_pooled_std)
            else Inr (Cohens_d,
                   lift2 (fl_div l)
                     (lift2 (fl_sub l) (mean l (group cat num (unique cat ! 0)))
                                       (mean l (group cat num (unique cat ! 1))))
                     (pooled_std l (group cat num (unique cat ! 0))
                                   (group cat num (unique cat ! 1))),
                   snd (ttest_ind l (group cat num (unique cat ! 0))
                                    (group cat num (unique cat ! 1)))))"
  using c n two
  by (simp add: cat_on_num_stats_def Let_def split: prod.splits)

subsection \<open>Two constant groups in doubles\<close>





lemma example_constant_exact:
  "cat_on_num_stats example_lib example_constant ''group'' ''score'' =
     Inl (ValueError zero_pooled_std)"
  by (simp add: cat_on_num_stats_def getitem_def nunique_def group_def example_constant_def
      pooled_std_def var_def lift2_def example_lib_def Let_def)



section \<open>The caller's frame\<close>

lemma clean_cat_num_frame: "\<exists>new. snd (clean_cat_num l st df c n) = st @ new"
  by (auto simp: clean_cat_num_def copy_def alloc_def assign_column_def Let_def
      split: sum.splits)

lemma clean_num_num_frame: "\<exists>new. snd (clean_num_num l st df c n) = st @ new"
  by (auto simp: clean_num_num_def copy_def alloc_def assign_column_def Let_def
      split: sum.splits)

lemma cat_on_num_store:
  "snd (cat_on_num_effect_size l st df c n alpha) = snd (clean_cat_num l st df c n)"
  by (auto simp: cat_on_num_effect_size_def split: prod.splits sum.splits)

lemma correlation_store:
  "snd (correlation_effect_size l st df c n alpha) = snd (clean_num_num l st df c n)"
  by (auto simp: correlation_effect_size_def split: prod.splits sum.splits)

lemma cat_on_cat_store: "snd (cat_on_cat_effect_size l st df c n alpha) = st"
  by (auto simp: cat_on_cat_effect_size_def split: prod.splits sum.splits)

lemma deref_append: "r < length st \<Longrightarrow> deref (st @ new) r = deref st r"
  by (simp add: deref_def nth_append)

text \<open>
  Claim C9. No analyzer changes a frame that existed before the call: the categorical
  analyzer leaves the store as it is, the other two only add frames (the copy and the
  cleaned frame) behind the existing ones, so the caller's reference reads the same frame
  after the call.
\<close>

theorem caller_table_unchanged:
  "snd (cat_on_cat_effect_size l st df col1 col2 alpha) = st \<and>
   prefix st (snd (cat_on_num_effect_size l st df col1 col2 alpha)) \<and>
   prefix st (snd (correlation_effect_size l st df col1 col2 alpha)) \<and>
   (r < length st \<longrightarrow>
      deref (snd (cat_on_num_effect_size l st df col1 col2 alpha)) r = deref st r \<and>
      deref (snd (correlation_effect_size l st df col1 col2 alpha)) r = deref st r)"
proof -
  obtain n1 where n1: "snd (cat_on_num_effect_size l st df col1 col2 alpha) = st @ n1"
    using clean_cat_num_frame[of l st df col1 col2] by (auto simp: cat_on_num_store)
  obtain n2 where n2: "snd (correlation_effect_size l st df col1 col2 alpha) = st @ n2"
    using clean_num_num_frame[of l st df col1 col2] by (auto simp: correlation_store)
  show ?thesis
    by (simp add: cat_on_cat_store n1 n2 deref_append)
qed

theorem caller_table_unchanged_witness:
  "0 < length [example_scores] \<and>
   deref (snd (cat_on_num_effect_size example_lib [example_scores] 0 ''group'' ''score'' (5 / 100))) 0
     = example_scores \<and>
   deref (snd (correlation_effect_size example_lib [example_scores] 0 ''group'' ''score'' (5 / 100))) 0
     = example_scores"
proof -
  have h: "0 < length [example_scores]" by simp
  note f = caller_table_unchanged [THEN conjunct2, THEN conjunct2, THEN conjunct2, THEN mp, OF h,
      of example_lib 0 "''group''" "''score''" "5 / 100"]
  show ?thesis using h f by (simp add: deref_examples)
qed

section \<open>The order of the two groups\<close>

lemma unique_nth_0: "xs \<noteq> [] \<Longrightarrow> unique xs ! 0 = hd xs"
  by (cases xs) auto

lemma group_other:
  assumes two: "length (unique cat) = 2"
  shows "group cat num (unique cat ! 1) =
           numbers (map snd (filter (\<lambda>(c, x). c \<noteq> hd cat) (zip cat num)))"
proof -
  obtain u0 u1 where u: "unique cat = [u0, u1]"
    using two by (cases "unique cat"; cases "tl (unique cat)") auto
  have d: "u0 \<noteq> u1" using distinct_unique[of cat] unfolding u by simp
  have s: "set cat = {u0, u1}" using set_unique[of cat] unfolding u by simp
  have "cat \<noteq> []" using u by auto
  then have h: "hd cat = u0" using unique_nth_0[of cat] u by simp
  have "filter (\<lambda>(c, x). c = u1) (zip cat num) = filter (\<lambda>(c, x). c \<noteq> hd cat) (zip cat num)"
  proof (rule filter_cong[OF refl])
    fix p assume "p \<in> set (zip cat num)"
    then have "fst p \<in> set cat"
      using set_zip_leftD[of "fst p" "snd p" cat num] by simp
    then show "(case p of (c, x) \<Rightarrow> c = u1) = (case p of (c, x) \<Rightarrow> c \<noteq> hd cat)"
      using s d h by (cases p) auto
  qed
  then show ?thesis by (simp add: group_def u)
qed

lemma nunique_no_NA: "NA \<notin> set cat \<Longrightarrow> nunique cat = length (unique cat)"
proof -
  assume "NA \<notin> set cat"
  then have "filter (\<lambda>c. c \<noteq> NA) cat = cat" by (intro filter_True) auto
  then show ?thesis by (simp add: nunique_def)
qed

lemma example_rows_permuted:
  "mset (rows_of example_scores ''group'' ''score'')
     = mset (rows_of example_scores_swapped ''group'' ''score'')"
  by (simp add: rows_of_def getitem_def example_scores_def example_scores_swapped_def)

lemma example_scores_effect:
  "fst (cat_on_num_effect_size example_lib [example_scores] 0 ''group'' ''score'' (5 / 100)) =
     Inr (Effect Cohens_d (Some (- 5)) (Some ''very large effect size'') (Some (1 / 100)), 2)"
proof -
  have s: "cat_on_num_stats example_lib (deref [example_scores, example_scores, example_scores] 2)
       ''group'' ''score'' = Inr (Cohens_d, Some (- 5), Some (1 / 100))"
    unfolding deref_examples by (rule example_scores_stats)
  show ?thesis
    using cat_on_num_output[OF example_scores_clean s interpret_examples(2), of "5 / 100"]
    by simp
qed

lemma example_scores_swapped_effect:
  "fst (cat_on_num_effect_size example_lib [example_scores_swapped] 0 ''group'' ''score'' (5 / 100)) =
     Inr (Effect Cohens_d (Some 5) (Some ''very large effect size'') (Some (1 / 100)), 2)"
proof -
  have s: "cat_on_num_stats example_lib
       (deref [example_scores_swapped, example_scores_swapped, example_scores_swapped] 2)
       ''group'' ''score'' = Inr (Cohens_d, Some 5, Some (1 / 100))"
    unfolding deref_examples by (rule example_scores_swapped_stats)
  show ?thesis
    using cat_on_num_output[OF example_scores_swapped_clean s interpret_examples(3), of "5 / 100"]
    by simp
qed

text \<open>The same two frames in the arithmetic of doubles: every operation is exact there.\<close>

lemma example_scores_double:
  "cat_on_num_stats double_lib example_scores ''group'' ''score'' =
     Inr (Cohens_d, Some (- 5), Some (1 / 100))"
  by (simp add: cat_on_num_stats_def getitem_def nunique_def group_def example_scores_def
      pooled_std_def var_def mean_def lift2_def np_sum_def pairwise_sum_3 double_ops r64 Let_def
      sqrt_4)

lemma example_scores_swapped_double:
  "cat_on_num_stats double_lib example_scores_swapped ''group'' ''score'' =
     Inr (Cohens_d, Some 5, Some (1 / 100))"
  by (simp add: cat_on_num_stats_def getitem_def nunique_def group_def example_scores_swapped_def
      pooled_std_def var_def mean_def lift2_def np_sum_def pairwise_sum_3 double_ops r64 Let_def
      sqrt_4)

lemma clean_cat_num_double:
  "clean_cat_num double_lib st df c n = clean_cat_num example_lib st df c n"
proof -
  have p: "parse_number double_lib = parse_number example_lib"
    by (simp add: double_lib_def)
  show ?thesis unfolding clean_cat_num_def p ..
qed

lemma example_scores_effect_double:
  "fst (cat_on_num_effect_size double_lib [example_scores] 0 ''group'' ''score'' (5 / 100)) =
     Inr (Effect Cohens_d (Some (- 5)) (Some ''very large effect size'') (Some (1 / 100)), 2)"
proof -
  have c: "clean_cat_num double_lib [example_scores] 0 ''group'' ''score'' =
     (Inr 2, [example_scores, example_scores, example_scores])"
    unfolding clean_cat_num_double by (rule example_scores_clean)
  have s: "cat_on_num_stats double_lib (deref [example_scores, example_scores, example_scores] 2)
       ''group'' ''score'' = Inr (Cohens_d, Some (- 5), Some (1 / 100))"
    unfolding deref_examples by (rule example_scores_double)
  show ?thesis
    using cat_on_num_output[OF c s interpret_examples(2), of "5 / 100"]
    by simp
qed

lemma example_scores_swapped_effect_double:
  "fst (cat_on_num_effect_size double_lib [example_scores_swapped] 0 ''group'' ''score'' (5 / 100)) =
     Inr (Effect Cohens_d (Some 5) (Some ''very large effect size'') (Some (1 / 100)), 2)"
proof -
  have c: "clean_cat_num double_lib [example_scores_swapped] 0 ''group'' ''score'' =
     (Inr 2, [example_scores_swapped, example_scores_swapped, example_scores_swapped])"
    unfolding clean_cat_num_double by (rule example_scores_swapped_clean)
  have s: "cat_on_num_stats double_lib
       (deref [example_scores_swapped, example_scores_swapped, example_scores_swapped] 2)
       ''group'' ''score'' = Inr (Cohens_d, Some 5, Some (1 / 100))"
    unfolding deref_examples by (rule example_scores_swapped_double)
  show ?thesis
    using cat_on_num_output[OF c s interpret_examples(3), of "5 / 100"]
    by simp
qed

text \<open>
  Claim C10. In the two-group branch on a cleaned frame, the first group is the group of
  the category of the first row and the second group is made of all other rows, so
  Cohen's d is the mean of the first row's group minus the mean of the other group. The
  two example frames have the same rows in a different order, and the analyzer returns
  \<open>- 5\<close> for one and \<open>5\<close> for the other, in exact arithmetic and in the arithmetic
  of doubles.
\<close>

theorem cohen_d_sign_follows_row_order:
  fixes cat num :: column
  defines "group1 \<equiv> group cat num (hd cat)"
    and "group2 \<equiv> numbers (map snd (filter (\<lambda>(c, x). c \<noteq> hd cat) (zip cat num)))"
  shows "(getitem df cat_col = Inr cat \<and> getitem df num_col = Inr num \<and>
          NA \<notin> set cat \<and> nunique cat = 2 \<and> pooled_std l group1 group2 \<noteq> Some 0 \<longrightarrow>
            cat_on_num_stats l df cat_col num_col =
              Inr (Cohens_d,
                   lift2 (fl_div l) (lift2 (fl_sub l) (mean l group1) (mean l group2))
                     (pooled_std l group1 group2),
                   snd (ttest_ind l group1 group2))) \<and>
         mset (rows_of example_scores ''group'' ''score'')
           = mset (rows_of example_scores_swapped ''group'' ''score'') \<and>
         fst (cat_on_num_effect_size example_lib [example_scores] 0 ''group'' ''score'' (5 / 100)) =
           Inr (Effect Cohens_d (Some (- 5)) (Some ''very large effect size'') (Some (1 / 100)), 2) \<and>
         fst (cat_on_num_effect_size example_lib [example_scores_swapped] 0 ''group'' ''score''
                (5 / 100)) =
           Inr (Effect Cohens_d (Some 5) (Some ''very large effect size'') (Some (1 / 100)), 2) \<and>
         fst (cat_on_num_effect_size double_lib [example_scores] 0 ''group'' ''score'' (5 / 100)) =
           Inr (Effect Cohens_d (Some (- 5)) (Some ''very large effect size'') (Some (1 / 100)), 2) \<and>
         fst (cat_on_num_effect_size double_lib [example_scores_swapped] 0 ''group'' ''score''
                (5 / 100)) =
           Inr (Effect Cohens_d (Some 5) (Some ''very large effect size'') (Some (1 / 100)), 2)"
proof -
  have general: "cat_on_num_stats l df cat_col num_col =
              Inr (Cohens_d,
                   lift2 (fl_div l) (lift2 (fl_sub l) (mean l group1) (mean l group2))
                     (pooled_std l group1 group2),
                   snd (ttest_ind l group1 group2))"
    if c: "getitem df cat_col = Inr cat" and n: "getitem df num_col = Inr num"
      and na: "NA \<notin> set cat" and two: "nunique cat = 2"
      and p: "pooled_std l group1 group2 \<noteq> Some 0"
  proof -
    have len: "length (unique cat) = 2" using nunique_no_NA[OF na] two by simp
    then have ne: "cat \<noteq> []" by auto
    have g1: "group cat num (unique cat ! 0) = group1"
      by (simp add: unique_nth_0[OF ne] group1_def)
    have g2: "group cat num (unique cat ! 1) = group2"
      unfolding group2_def by (rule group_other[OF len])
    show ?thesis
      unfolding cat_on_num_stats_two[OF c n two] g1 g2 using p by simp
  qed
  show ?thesis
    apply (rule conjI)
     apply (rule impI)
     apply (elim conjE)
     apply (erule (4) general)
    apply (rule conjI)
     apply (rule example_rows_permuted)
    apply (rule conjI)
     apply (rule example_scores_effect)
    apply (rule conjI)
     apply (rule example_scores_swapped_effect)
    apply (rule conjI)
     apply (rule example_scores_effect_double)
    apply (rule example_scores_swapped_effect_double)
    done
qed

theorem cohen_d_sign_follows_row_order_witness:
  "getitem example_scores ''group'' =
     Inr [Str ''A'', Str ''A'', Str ''A'', Str ''B'', Str ''B'', Str ''B''] \<and>
   getitem example_scores ''score'' = Inr [Num 0, Num 2, Num 4, Num 10, Num 12, Num 14] \<and>
   NA \<notin> set [Str ''A'', Str ''A'', Str ''A'', Str ''B'', Str ''B'', Str ''B''] \<and>
   nunique [Str ''A'', Str ''A'', Str ''A'', Str ''B'', Str ''B'', Str ''B''] = 2 \<and>
   pooled_std example_lib [0, 2, 4] [10, 12, 14] \<noteq> Some 0 \<and>
   cat_on_num_stats example_lib example_scores ''group'' ''score'' =
     Inr (Cohens_d, Some (- 5), Some (1 / 100))"
proof -
  have g1: "group [Str ''A'', Str ''A'', Str ''A'', Str ''B'', Str ''B'', Str ''B'']
              [Num 0, Num 2, Num 4, Num 10, Num 12, Num 14]
              (hd [Str ''A'', Str ''A'', Str ''A'', Str ''B'', Str ''B'', Str ''B''])
            = [0, 2, 4]"
    by (simp add: group_def)
  have g2: "numbers (map snd (filter
              (\<lambda>(c, x). c \<noteq> hd [Str ''A'', Str ''A'', Str ''A'', Str ''B'', Str ''B'', Str ''B''])
              (zip [Str ''A'', Str ''A'', Str ''A'', Str ''B'', Str ''B'', Str ''B'']
                   [Num 0, Num 2, Num 4, Num 10, Num 12, Num 14])))
            = [10, 12, 14]"
    by simp
  have p: "pooled_std example_lib [0, 2, 4] [10, 12, 14] = Some 2"
    by (simp add: pooled_std_def var_def lift2_def example_lib_def power2_eq_square sqrt_4)
  then have p0: "pooled_std example_lib [0, 2, 4] [10, 12, 14] \<noteq> Some 0" by simp
  have t: "ttest_ind example_lib = (\<lambda>g1 g2. (Some 0, Some (1 / 100)))"
    by (simp add: example_lib_def)
  have na: "NA \<notin> set [Str ''A'', Str ''A'', Str ''A'', Str ''B'', Str ''B'', Str ''B'']"
    by simp
  have hyp: "getitem example_scores ''group'' =
       Inr [Str ''A'', Str ''A'', Str ''A'', Str ''B'', Str ''B'', Str ''B''] \<and>
     getitem example_scores ''score'' = Inr [Num 0, Num 2, Num 4, Num 10, Num 12, Num 14] \<and>
     NA \<notin> set [Str ''A'', Str ''A'', Str ''A'', Str ''B'', Str ''B'', Str ''B''] \<and>
     nunique [Str ''A'', Str ''A'', Str ''A'', Str ''B'', Str ''B'', Str ''B''] = 2 \<and>
     pooled_std example_lib [0, 2, 4] [10, 12, 14] \<noteq> Some 0"
    by (intro conjI example_scores_group example_scores_score na example_scores_nunique p0)
  note T = cohen_d_sign_follows_row_order
      [where cat = "[Str ''A'', Str ''A'', Str ''A'', Str ''B'', Str ''B'', Str ''B'']"
         and num = "[Num 0, Num 2, Num 4, Num 10, Num 12, Num 14]"
         and df = example_scores and cat_col = "''group''" and num_col = "''score''"
         and l = example_lib,
       THEN conjunct1, unfolded g1 g2, THEN mp, OF hyp]
  have "cat_on_num_stats example_lib example_scores ''group'' ''score'' =
     Inr (Cohens_d, Some (- 5), Some (1 / 100))"
    using T by (simp add: p mean_def lift2_def exact_ops[OF example_lib_exact] t)
  then show ?thesis using hyp by simp
qed

section \<open>The dispatch and alpha\<close>

lemma example_one_group_stats:
  "cat_on_cat_stats example_lib example_one_group ''group'' ''outcome'' =
     Inr (\<lparr> index = [Str ''A''], columns = [Str ''yes'', Str ''no''], counts = [[1, 1]] \<rparr>,
          0, 1)"
  by (simp add: cat_on_cat_stats_def getitem_def example_one_group_def crosstab_def
      observed_pairs_def Let_def chi2_contingency_def shape_def expected_freq_def col_sums_def
      total_def denom_def example_lib_def)

lemma example_one_group_double:
  "cat_on_cat_stats double_lib example_one_group ''group'' ''outcome'' =
     Inr (\<lparr> index = [Str ''A''], columns = [Str ''yes'', Str ''no''], counts = [[1, 1]] \<rparr>,
          0, 1)"
  by (simp add: cat_on_cat_stats_def getitem_def example_one_group_def crosstab_def
      observed_pairs_def Let_def chi2_contingency_def shape_def expected_freq_def col_sums_def
      total_def denom_def double_ops r64)

lemma interpret_zero:
  "interpret_effect_size (Some 0) name_cramer = Inr (Some ''small effect size'')"
  by (simp add: interpret_effect_size_def lower_names interpretations_def
      keys_distinct keys_distinct[symmetric] scan_bands_cramer)

lemma example_one_group_effect:
  "fst (cat_on_cat_effect_size example_lib [example_one_group] 0 ''group'' ''outcome'' 2) =
     Inr (Effect Cramers_V (Some 0) (Some ''small effect size'') (Some 1),
          \<lparr> index = [Str ''A''], columns = [Str ''yes'', Str ''no''], counts = [[1, 1]] \<rparr>)"
proof -
  have s: "cat_on_cat_stats example_lib (deref [example_one_group] 0) ''group'' ''outcome'' =
     Inr (\<lparr> index = [Str ''A''], columns = [Str ''yes'', Str ''no''], counts = [[1, 1]] \<rparr>,
          0, 1)"
    unfolding deref_examples by (rule example_one_group_stats)
  show ?thesis
    using cat_on_cat_output[OF s interpret_zero, of 2] by simp
qed

lemma example_one_group_effect_double:
  "fst (cat_on_cat_effect_size double_lib [example_one_group] 0 ''group'' ''outcome'' 2) =
     Inr (Effect Cramers_V (Some 0) (Some ''small effect size'') (Some 1),
          \<lparr> index = [Str ''A''], columns = [Str ''yes'', Str ''no''], counts = [[1, 1]] \<rparr>)"
proof -
  have s: "cat_on_cat_stats double_lib (deref [example_one_group] 0) ''group'' ''outcome'' =
     Inr (\<lparr> index = [Str ''A''], columns = [Str ''yes'', Str ''no''], counts = [[1, 1]] \<rparr>,
          0, 1)"
    unfolding deref_examples by (rule example_one_group_double)
  show ?thesis
    using cat_on_cat_output[OF s interpret_zero, of 2] by simp
qed

lemma fst_show_result:
  "fst a = Inr (t, u) \<Longrightarrow> fst (show_result a) = Result_text t"
  by (cases a) auto

text \<open>
  The dispatch does not check the range of alpha. With the entry read as 2, a value
  outside the open interval from 0 to 1, the categorical analyzer runs on a table whose
  test has the p-value 1, and an effect size is shown as significant, in exact arithmetic
  and in the arithmetic of doubles.
\<close>

theorem alpha_out_of_range_counterexample:
  "\<not> (0 < (2::real) \<and> (2::real) < 1) \<and>
   float_of_text example_lib ''2'' = Some 2 \<and>
   fst (calculate_effect_size example_lib
          \<lparr> loaded = Some 0, alpha_entry = ''2'',
            effect_type_menu = ''Categorical on Categorical'',
            col1_menu = ''group'', col2_menu = ''outcome'' \<rparr>
          [example_one_group]) =
     Result_text (Effect Cramers_V (Some 0) (Some ''small effect size'') (Some 1)) \<and>
   float_of_text double_lib ''2'' = Some 2 \<and>
   fst (calculate_effect_size double_lib
          \<lparr> loaded = Some 0, alpha_entry = ''2'',
            effect_type_menu = ''Categorical on Categorical'',
            col1_menu = ''group'', col2_menu = ''outcome'' \<rparr>
          [example_one_group]) =
     Result_text (Effect Cramers_V (Some 0) (Some ''small effect size'') (Some 1))"
proof -
  have f: "float_of_text example_lib ''2'' = Some 2" by (simp add: example_lib_def)
  have fd: "float_of_text double_lib ''2'' = Some 2"
    by (simp add: double_lib_def example_lib_def)
  have d: "fst (show_result (cat_on_cat_effect_size double_lib [example_one_group] 0
          ''group'' ''outcome'' 2)) =
     Result_text (Effect Cramers_V (Some 0) (Some ''small effect size'') (Some 1))"
    by (rule fst_show_result[OF example_one_group_effect_double])
  have "fst (show_result (cat_on_cat_effect_size example_lib [example_one_group] 0
          ''group'' ''outcome'' 2)) =
     Result_text (Effect Cramers_V (Some 0) (Some ''small effect size'') (Some 1))"
    by (rule fst_show_result[OF example_one_group_effect])
  then show ?thesis using f fd d by (simp add: calculate_effect_size_def)
qed


text \<open>
  Claim C7, as the code has it. With a frame loaded, the only check on alpha is that its
  text reads as a number: a text that does not is answered with the error box and the
  store is left alone; every number, in range or not, goes unchanged to the analyzer that
  the menu selects (when the two columns differ).
\<close>

theorem alpha_only_parsed:
  "loaded self = Some df \<Longrightarrow>
     (float_of_text l (alpha_entry self) = None \<longrightarrow>
        calculate_effect_size l self st = (Error_alpha_not_numeric, st)) \<and>
     (\<forall>alpha. float_of_text l (alpha_entry self) = Some alpha \<and>
              col1_menu self \<noteq> col2_menu self \<longrightarrow>
        calculate_effect_size l self st =
          (if effect_type_menu self = ''Categorical on Categorical''
           then show_result
                  (cat_on_cat_effect_size l st df (col1_menu self) (col2_menu self) alpha)
           else if effect_type_menu self = ''Categorical on Numerical''
           then show_result
                  (cat_on_num_effect_size l st df (col1_menu self) (col2_menu self) alpha)
           else show_result
                  (correlation_effect_size l st df (col1_menu self) (col2_menu self) alpha)))"
  by (simp add: calculate_effect_size_def Let_def)

theorem alpha_only_parsed_witness:
  "loaded \<lparr> loaded = Some 0, alpha_entry = ''abc'',
            effect_type_menu = ''Categorical on Numerical'',
            col1_menu = ''group'', col2_menu = ''score'' \<rparr> = Some 0 \<and>
   float_of_text example_lib ''abc'' = None \<and>
   calculate_effect_size example_lib
       \<lparr> loaded = Some 0, alpha_entry = ''abc'',
         effect_type_menu = ''Categorical on Numerical'',
         col1_menu = ''group'', col2_menu = ''score'' \<rparr> [example_scores]
     = (Error_alpha_not_numeric, [example_scores]) \<and>
   float_of_text example_lib ''2'' = Some 2 \<and> ''group'' \<noteq> ''score'' \<and>
   calculate_effect_size example_lib
       \<lparr> loaded = Some 0, alpha_entry = ''2'',
         effect_type_menu = ''Categorical on Numerical'',
         col1_menu = ''group'', col2_menu = ''score'' \<rparr> [example_scores]
     = show_result (cat_on_num_effect_size example_lib [example_scores] 0 ''group'' ''score'' 2)"
proof -
  have h: "loaded \<lparr> loaded = Some 0, alpha_entry = ''abc'',
            effect_type_menu = ''Categorical on Numerical'',
            col1_menu = ''group'', col2_menu = ''score'' \<rparr> = Some 0"
    by simp
  have h2: "loaded \<lparr> loaded = Some 0, alpha_entry = ''2'',
            effect_type_menu = ''Categorical on Numerical'',
            col1_menu = ''group'', col2_menu = ''score'' \<rparr> = Some 0"
    by simp
  have n: "float_of_text example_lib ''abc'' = None" by (simp add: example_lib_def)
  have f: "float_of_text example_lib ''2'' = Some 2" by (simp add: example_lib_def)
  note a = alpha_only_parsed [OF h, of example_lib "[example_scores]", THEN conjunct1, THEN mp]
  note b = alpha_only_parsed [OF h2, of example_lib "[example_scores]", THEN conjunct2,
      THEN spec, of 2, THEN mp]
  have a': "calculate_effect_size example_lib
       \<lparr> loaded = Some 0, alpha_entry = ''abc'',
         effect_type_menu = ''Categorical on Numerical'',
         col1_menu = ''group'', col2_menu = ''score'' \<rparr> [example_scores]
     = (Error_alpha_not_numeric, [example_scores])"
    using a n by simp
  have b': "calculate_effect_size example_lib
       \<lparr> loaded = Some 0, alpha_entry = ''2'',
         effect_type_menu = ''Categorical on Numerical'',
         col1_menu = ''group'', col2_menu = ''score'' \<rparr> [example_scores]
     = show_result (cat_on_num_effect_size example_lib [example_scores] 0 ''group'' ''score'' 2)"
    using b f by simp
  show ?thesis using h n f a' b' by simp
qed

end
